theory Spec2Isabelle
  imports Complex_Main
begin

section \<open>Strings as the handlers use them\<close>

text \<open>
  The TypeScript sources work on JavaScript strings. They are modelled as HOL strings
  (lists of characters); the two string methods the handlers call are written out.
\<close>

text \<open>\<^verbatim>\<open>s.startsWith(p)\<close>: \<open>p\<close> is a prefix of \<open>s\<close>.\<close>

fun str_startsWith :: "string \<Rightarrow> string \<Rightarrow> bool" where
  "str_startsWith s [] = True"
| "str_startsWith [] (p # ps) = False"
| "str_startsWith (c # cs) (p # ps) = (c = p \<and> str_startsWith cs ps)"

text \<open>\<^verbatim>\<open>s.includes(p)\<close>: \<open>p\<close> occurs in \<open>s\<close> at some position.\<close>

fun str_includes :: "string \<Rightarrow> string \<Rightarrow> bool" where
  "str_includes [] p = (p = [])"
| "str_includes (c # cs) p = (str_startsWith (c # cs) p \<or> str_includes cs p)"

section \<open>Source-type inference\<close>

datatype SourceType = Email | Phone | Webhook

text \<open>
  The same three-way test is written inline in the route handler
  (\<^verbatim>\<open>api/v2/webhook/transaction/route.ts\<close>, POST) and in
  \<^verbatim>\<open>WebhookRepository.processV2Webhook\<close>:
  \<^verbatim>\<open>
    if (webhookData.sourceTo.includes('@')) sourceType = 'email';
    else if (webhookData.sourceTo.startsWith('+')) sourceType = 'phone';
    else sourceType = 'webhook';
  \<close>
\<close>

definition inferSourceType :: "string \<Rightarrow> SourceType" where
  "inferSourceType sourceTo =
     (if str_includes sourceTo ''@'' then Email
      else if str_startsWith sourceTo ''+'' then Phone
      else Webhook)"

section \<open>JavaScript values\<close>

text \<open>
  A JavaScript number is an IEEE double. The handlers only compare numbers, so a finite
  number is modelled by its exact rational value; the three non-finite doubles are kept
  apart.
\<close>

datatype jsnum = Finite rat | PosInfinity | NegInfinity | NaN

text \<open>\<^verbatim>\<open>a < b\<close> and \<open>a > b\<close> on numbers: every comparison with NaN is false.\<close>

fun js_less :: "jsnum \<Rightarrow> jsnum \<Rightarrow> bool" where
  "js_less NaN b = False"
| "js_less a NaN = False"
| "js_less (Finite a) (Finite b) = (a < b)"
| "js_less (Finite a) PosInfinity = True"
| "js_less (Finite a) NegInfinity = False"
| "js_less PosInfinity b = False"
| "js_less NegInfinity NegInfinity = False"
| "js_less NegInfinity b = True"

definition js_greater :: "jsnum \<Rightarrow> jsnum \<Rightarrow> bool" where
  "js_greater a b = js_less b a"

text \<open>\<^verbatim>\<open>a <= b\<close>: true when \<open>a < b\<close> or the two are equal numbers (never for NaN).\<close>

definition js_less_eq :: "jsnum \<Rightarrow> jsnum \<Rightarrow> bool" where
  "js_less_eq a b = (a \<noteq> NaN \<and> b \<noteq> NaN \<and> (js_less a b \<or> a = b))"

text \<open>\<^verbatim>\<open>Number.isFinite\<close>.\<close>

fun isFinite :: "jsnum \<Rightarrow> bool" where
  "isFinite (Finite a) = True"
| "isFinite n = False"

text \<open>
  A decoded JSON body (\<^verbatim>\<open>await request.json()\<close>), with \<open>undefined\<close> for a property
  that is absent. An object is the list of its properties.
\<close>

datatype jsval =
    JUndefined
  | JNull
  | JBool bool
  | JNumber jsnum
  | JString string
  | JArray "jsval list"
  | JObject "(string \<times> jsval) list"

text \<open>\<^verbatim>\<open>data[key]\<close> on an object.\<close>

definition js_get :: "(string \<times> jsval) list \<Rightarrow> string \<Rightarrow> jsval" where
  "js_get props k = (case map_of props k of None \<Rightarrow> JUndefined | Some v \<Rightarrow> v)"

text \<open>\<^verbatim>\<open>xs.join(sep)\<close> on a list of strings.\<close>

fun str_join :: "string \<Rightarrow> string list \<Rightarrow> string" where
  "str_join sep [] = []"
| "str_join sep [x] = x"
| "str_join sep (x # y # ys) = x @ sep @ str_join sep (y # ys)"

section \<open>Character classes of the regular expressions\<close>

definition is_digit :: "char \<Rightarrow> bool" where
  "is_digit c = (48 \<le> (of_char c :: nat) \<and> (of_char c :: nat) \<le> 57)"

definition is_lower :: "char \<Rightarrow> bool" where
  "is_lower c = (97 \<le> (of_char c :: nat) \<and> (of_char c :: nat) \<le> 122)"

definition is_upper :: "char \<Rightarrow> bool" where
  "is_upper c = (65 \<le> (of_char c :: nat) \<and> (of_char c :: nat) \<le> 90)"

text \<open>
  \<^verbatim>\<open>\s\<close>: of the code units a HOL character can hold these are space, tab, line feed,
  vertical tab, form feed, carriage return and the no-break space.
\<close>

definition is_space :: "char \<Rightarrow> bool" where
  "is_space c = ((of_char c :: nat) \<in> {32, 9, 10, 11, 12, 13, 160})"

text \<open>\<^verbatim>\<open>/^[a-z0-9_-]+$/\<close>\<close>

definition matches_source_name :: "string \<Rightarrow> bool" where
  "matches_source_name s =
     (s \<noteq> [] \<and> list_all (\<lambda>c. is_lower c \<or> is_digit c \<or> c = CHR ''_'' \<or> c = CHR ''-'') s)"

text \<open>\<^verbatim>\<open>/^[a-zA-Z0-9_-]+$/\<close>\<close>

definition matches_webhook_id :: "string \<Rightarrow> bool" where
  "matches_webhook_id s =
     (s \<noteq> [] \<and>
      list_all (\<lambda>c. is_lower c \<or> is_upper c \<or> is_digit c \<or> c = CHR ''_'' \<or> c = CHR ''-'') s)"

text \<open>\<^verbatim>\<open>/^[A-Z]{3}$/\<close>\<close>

definition matches_currency :: "string \<Rightarrow> bool" where
  "matches_currency s = (length s = 3 \<and> list_all is_upper s)"

text \<open>\<^verbatim>\<open>/^\+\d{10,15}$/\<close>\<close>

definition matches_phone :: "string \<Rightarrow> bool" where
  "matches_phone s =
     (case s of
        [] \<Rightarrow> False
      | c # ds \<Rightarrow> c = CHR ''+'' \<and> 10 \<le> length ds \<and> length ds \<le> 15 \<and> list_all is_digit ds)"

text \<open>
  \<^verbatim>\<open>/^[^\s@]+@[^\s@]+\.[^\s@]+$/\<close>: a non-empty local part, one \<open>@\<close>, and a rest that has
  a dot with at least one character on each side; no character is white space or a second
  \<open>@\<close>. The local part ends at the first \<open>@\<close>, since it cannot hold one.
\<close>

definition not_space_at :: "char \<Rightarrow> bool" where
  "not_space_at c = (\<not> is_space c \<and> c \<noteq> CHR ''@'')"

definition has_inner_dot :: "string \<Rightarrow> bool" where
  "has_inner_dot d = (2 \<le> length d \<and> CHR ''.'' \<in> set (butlast (tl d)))"

definition matches_email :: "string \<Rightarrow> bool" where
  "matches_email s =
     (let l = takeWhile (\<lambda>c. c \<noteq> CHR ''@'') s;
          r = dropWhile (\<lambda>c. c \<noteq> CHR ''@'') s
      in l \<noteq> [] \<and> r \<noteq> [] \<and> list_all not_space_at l \<and>
         list_all not_space_at (tl r) \<and> has_inner_dot (tl r))"

section \<open>The structured payload validator (\<^verbatim>\<open>lib/v2-validation.ts\<close>)\<close>

text \<open>
  The schema is declared with the zod library (version 3: the file uses
  \<^verbatim>\<open>z.SafeParseReturnType\<close> and \<^verbatim>\<open>ZodError.errors\<close>). The combinators it uses are
  modelled as functions from a path and a value to the issues found and the parsed value;
  the value is \<open>None\<close> when parsing aborted (a wrong type), and checks and refinements
  that fail add an issue and keep the value.
\<close>

datatype ZodIssue =
  ZodIssue (issue_code: string) (issue_path: "string list") (issue_message: string)

type_synonym 'a zod_result = "ZodIssue list \<times> 'a option"

text \<open>zod's name for the type of a value (\<^verbatim>\<open>getParsedType\<close>).\<close>

fun zod_typeName :: "jsval \<Rightarrow> string" where
  "zod_typeName JUndefined = ''undefined''"
| "zod_typeName JNull = ''null''"
| "zod_typeName (JBool b) = ''boolean''"
| "zod_typeName (JNumber NaN) = ''nan''"
| "zod_typeName (JNumber n) = ''number''"
| "zod_typeName (JString s) = ''string''"
| "zod_typeName (JArray xs) = ''array''"
| "zod_typeName (JObject ps) = ''object''"

definition zod_invalid_type :: "string \<Rightarrow> string list \<Rightarrow> jsval \<Rightarrow> ZodIssue" where
  "zod_invalid_type expected path v =
     ZodIssue ''invalid_type'' path
       (if v = JUndefined then ''Required''
        else ''Expected '' @ expected @ '', received '' @ zod_typeName v)"

text \<open>One check of a chain: an issue when the test fails.\<close>

definition zod_check :: "bool \<Rightarrow> string \<Rightarrow> string \<Rightarrow> string list \<Rightarrow> ZodIssue list" where
  "zod_check ok code msg path = (if ok then [] else [ZodIssue code path msg])"

text \<open>\<^verbatim>\<open>z.string()\<close> followed by checks, all of which run on a string.\<close>

definition zod_string ::
  "(string \<Rightarrow> string list \<Rightarrow> ZodIssue list) \<Rightarrow> string list \<Rightarrow> jsval \<Rightarrow> string zod_result" where
  "zod_string checks path v =
     (case v of
        JString s \<Rightarrow> (checks s path, Some s)
      | _ \<Rightarrow> ([zod_invalid_type ''string'' path v], None))"

text \<open>
  \<^verbatim>\<open>schema.optional()\<close> (\<^verbatim>\<open>ZodOptional._parse\<close>): \<open>undefined\<close> is returned as it is,
  before the inner schema sees it; any other value goes to the inner schema.
\<close>

definition zod_optional ::
  "(string list \<Rightarrow> jsval \<Rightarrow> 'a zod_result) \<Rightarrow> string list \<Rightarrow> jsval \<Rightarrow> 'a option zod_result" where
  "zod_optional inner path v =
     (if v = JUndefined then ([], Some None)
      else (case inner path v of (issues, r) \<Rightarrow> (issues, map_option Some r)))"

text \<open>
  \<^verbatim>\<open>schema.default(d)\<close> (\<^verbatim>\<open>ZodDefault._parse\<close>): \<open>undefined\<close> is replaced by the
  default, and the inner schema parses the result.
\<close>

definition zod_default ::
  "jsval \<Rightarrow> (string list \<Rightarrow> jsval \<Rightarrow> 'a zod_result) \<Rightarrow> string list \<Rightarrow> jsval \<Rightarrow> 'a zod_result" where
  "zod_default d inner path v = inner path (if v = JUndefined then d else v)"

text \<open>\<^verbatim>\<open>transactionEventSchema = z.enum(['deposit', 'withdrawal', 'transfer'])\<close>\<close>

definition js_quote :: "string \<Rightarrow> string" where
  "js_quote s = [CHR 0x27] @ s @ [CHR 0x27]"

definition transactionEvents :: "string list" where
  "transactionEvents = [''deposit'', ''withdrawal'', ''transfer'']"

definition transactionEventSchema :: "string list \<Rightarrow> jsval \<Rightarrow> string zod_result" where
  "transactionEventSchema path v =
     (let expected = str_join '' | '' (map js_quote transactionEvents) in
      case v of
        JString s \<Rightarrow>
          (if s \<in> set transactionEvents then ([], Some s)
           else ([ZodIssue ''invalid_enum_value'' path
                    (''Invalid enum value. Expected '' @ expected @ '', received '' @ js_quote s)],
                 None))
      | _ \<Rightarrow> ([zod_invalid_type expected path v], None))"

text \<open>
  \<^verbatim>\<open>sourceValueSchema\<close>: a string of 1 to 255 characters, refined by
  \<^verbatim>\<open>
    if (val.includes('@')) return /^[^\s@]+@[^\s@]+\.[^\s@]+$/.test(val);
    if (val.startsWith('+')) return /^\+\d{10,15}$/.test(val);
    return val.length > 0;
  \<close>
\<close>

definition sourceValue_refinement :: "string \<Rightarrow> bool" where
  "sourceValue_refinement val =
     (if str_includes val ''@'' then matches_email val
      else if str_startsWith val ''+'' then matches_phone val
      else length val > 0)"

definition sourceValueSchema :: "string list \<Rightarrow> jsval \<Rightarrow> string zod_result" where
  "sourceValueSchema =
     zod_string (\<lambda>s path.
       zod_check (1 \<le> length s) ''too_small'' ''Source value cannot be empty'' path @
       zod_check (length s \<le> 255) ''too_big'' ''Source value too long'' path @
       zod_check (sourceValue_refinement s) ''custom'' ''Invalid source value format'' path)"

text \<open>
  \<^verbatim>\<open>v2WebhookMetadataSchema\<close>: an object whose three known properties are optional
  strings; \<^verbatim>\<open>.catchall(z.any())\<close> lets every other property through unchanged.
\<close>

definition metadata_known_keys :: "string list" where
  "metadata_known_keys = [''accountNumber'', ''senderName'', ''reference'']"

definition v2WebhookMetadataSchema ::
  "string list \<Rightarrow> jsval \<Rightarrow> (string \<times> jsval) list zod_result" where
  "v2WebhookMetadataSchema path v =
     (case v of
        JObject props \<Rightarrow>
          (let rs = map (\<lambda>k. zod_optional (zod_string (\<lambda>s p. [])) (path @ [k]) (js_get props k))
                        metadata_known_keys;
               issues = concat (map fst rs);
               known = concat (map (\<lambda>k. case js_get props k of
                                             JString s \<Rightarrow> [(k, JString s)] | _ \<Rightarrow> [])
                                   metadata_known_keys);
               others = filter (\<lambda>(k, x). k \<notin> set metadata_known_keys) props
           in (issues, if issues = [] then Some (known @ others) else None))
      | _ \<Rightarrow> ([zod_invalid_type ''object'' path v], None))"

text \<open>The \<^verbatim>\<open>amount\<close> property:
  \<^verbatim>\<open>
    z.number().positive('Amount must be positive')
      .max(999999999999, 'Amount too large')
      .refine((val) => Number.isFinite(val), 'Amount must be a valid number')
  \<close>
  \<^verbatim>\<open>z.number()\<close> takes every number but NaN; \<^verbatim>\<open>positive\<close> fails when
  \<^verbatim>\<open>val <= 0\<close> and \<^verbatim>\<open>max\<close> when \<^verbatim>\<open>val > 999999999999\<close>.
\<close>

definition amountSchema :: "string list \<Rightarrow> jsval \<Rightarrow> jsnum zod_result" where
  "amountSchema path v =
     (case v of
        JNumber n \<Rightarrow>
          (if n = NaN then ([zod_invalid_type ''number'' path v], None)
           else (zod_check (\<not> js_less_eq n (Finite 0)) ''too_small'' ''Amount must be positive'' path @
                 zod_check (\<not> js_greater n (Finite 999999999999)) ''too_big'' ''Amount too large'' path @
                 zod_check (isFinite n) ''custom'' ''Amount must be a valid number'' path,
                 Some n))
      | _ \<Rightarrow> ([zod_invalid_type ''number'' path v], None))"

text \<open>The \<^verbatim>\<open>currency\<close> property:
  \<^verbatim>\<open>
    z.string().length(3, 'Currency must be 3 characters')
      .regex(/^[A-Z]{3}$/, 'Currency must be uppercase ISO code')
      .default('COP')
      .optional()
  \<close>
  The optional wrapper is the outer one.
\<close>

definition currencyString :: "string list \<Rightarrow> jsval \<Rightarrow> string zod_result" where
  "currencyString =
     zod_string (\<lambda>s path.
       zod_check (length s = 3) (if length s > 3 then ''too_big'' else ''too_small'')
         ''Currency must be 3 characters'' path @
       zod_check (matches_currency s) ''invalid_string'' ''Currency must be uppercase ISO code'' path)"

definition currencySchema :: "string list \<Rightarrow> jsval \<Rightarrow> string option zod_result" where
  "currencySchema = zod_optional (zod_default (JString ''COP'') currencyString)"

text \<open>
  What the handlers take from outside the repository: the JavaScript engine's
  \<^verbatim>\<open>parseInt\<close> and \<^verbatim>\<open>Date\<close> parser (\<open>None\<close> stands for NaN and for an invalid
  date), the server's local time zone as minutes east of UTC, the clock, zod's test of
  an ISO 8601 date-time string (\<^verbatim>\<open>z.string().datetime()\<close>, whose regular expression
  changed between releases), and the three environment variables.
\<close>

record runtime =
  parseInt :: "string \<Rightarrow> int option"
  Date_parse :: "string \<Rightarrow> int option"
  tzOffsetMinutes :: int
  Date_now :: int
  zod_datetime :: "string \<Rightarrow> bool"
  SUPABASE_URL :: "string option"
  SUPABASE_SERVICE_ROLE_KEY :: "string option"
  WEBHOOK_SECRET :: "string option"

text \<open>
  \<^verbatim>\<open>V2WebhookRequest\<close> (\<^verbatim>\<open>lib/types.ts\<close>). A validated amount is a finite number and
  is held by its value; \<open>currency\<close> and \<open>metadata\<close> are optional properties.
\<close>

record V2WebhookRequest =
  source :: string
  timestamp :: string
  sourceFrom :: string
  sourceTo :: string
  event :: string
  message :: string
  amount :: rat
  currency :: "string option"
  webhookId :: string
  metadata :: "(string \<times> jsval) list option"

text \<open>
  The value of the amount as the payload holds it. A non-finite number always carries the
  issue of the last refinement, so its value is never part of a parsed payload.
\<close>

definition amountValue :: "string list \<Rightarrow> jsval \<Rightarrow> rat zod_result" where
  "amountValue path v =
     (case amountSchema path v of
        (issues, Some (Finite r)) \<Rightarrow> (issues, Some r)
      | (issues, _) \<Rightarrow> (issues, None))"

text \<open>
  \<^verbatim>\<open>v2WebhookRequestSchema\<close>: \<^verbatim>\<open>z.object({...})\<close> parses each declared property of an
  object in the order of the declaration, collects the issues of all of them, and drops
  properties that are not declared.
\<close>

definition v2WebhookRequestSchema :: "(string \<Rightarrow> bool) \<Rightarrow> jsval \<Rightarrow> V2WebhookRequest zod_result" where
  "v2WebhookRequestSchema datetime v =
     (case v of
        JObject props \<Rightarrow>
          (let (i1, r1) = zod_string (\<lambda>s path.
                   zod_check (1 \<le> length s) ''too_small'' ''Source is required'' path @
                   zod_check (length s \<le> 50) ''too_big'' ''Source name too long'' path @
                   zod_check (matches_source_name s) ''invalid_string''
                     ''Source must be lowercase alphanumeric with dashes/underscores'' path)
                 [''source''] (js_get props ''source'');
               (i2, r2) = zod_string (\<lambda>s path.
                   zod_check (datetime s) ''invalid_string'' ''Invalid ISO 8601 timestamp format'' path)
                 [''timestamp''] (js_get props ''timestamp'');
               (i3, r3) = sourceValueSchema [''sourceFrom''] (js_get props ''sourceFrom'');
               (i4, r4) = sourceValueSchema [''sourceTo''] (js_get props ''sourceTo'');
               (i5, r5) = transactionEventSchema [''event''] (js_get props ''event'');
               (i6, r6) = zod_string (\<lambda>s path.
                   zod_check (1 \<le> length s) ''too_small'' ''Message cannot be empty'' path @
                   zod_check (length s \<le> 2000) ''too_big'' ''Message too long'' path)
                 [''message''] (js_get props ''message'');
               (i7, r7) = amountValue [''amount''] (js_get props ''amount'');
               (i8, r8) = currencySchema [''currency''] (js_get props ''currency'');
               (i9, r9) = zod_string (\<lambda>s path.
                   zod_check (1 \<le> length s) ''too_small'' ''Webhook ID is required'' path @
                   zod_check (length s \<le> 255) ''too_big'' ''Webhook ID too long'' path @
                   zod_check (matches_webhook_id s) ''invalid_string''
                     ''Webhook ID contains invalid characters'' path)
                 [''webhookId''] (js_get props ''webhookId'');
               (i10, r10) = zod_optional v2WebhookMetadataSchema [''metadata'']
                              (js_get props ''metadata'');
               issues = i1 @ i2 @ i3 @ i4 @ i5 @ i6 @ i7 @ i8 @ i9 @ i10
           in (issues,
               if issues \<noteq> [] then None
               else (case (r1, r2, r3, r4, r5, r6, r7, r8, r9, r10) of
                       (Some a, Some b, Some c, Some d, Some e, Some f, Some g, Some h, Some i, Some j) \<Rightarrow>
                         Some \<lparr>source = a, timestamp = b, sourceFrom = c, sourceTo = d, event = e,
                               message = f, amount = g, currency = h, webhookId = i, metadata = j\<rparr>
                     | _ \<Rightarrow> None)))
      | _ \<Rightarrow> ([zod_invalid_type ''object'' [] v], None))"

text \<open>
  \<^verbatim>\<open>parseV2WebhookPayload = (payload) => v2WebhookRequestSchema.safeParse(payload)\<close>:
  \<open>Inr\<close> is \<^verbatim>\<open>{success: true, data}\<close> and \<open>Inl\<close> is \<^verbatim>\<open>{success: false, error}\<close> with the
  issues of the error.
\<close>

definition parseV2WebhookPayload :: "(string \<Rightarrow> bool) \<Rightarrow> jsval \<Rightarrow> ZodIssue list + V2WebhookRequest" where
  "parseV2WebhookPayload datetime payload =
     (case v2WebhookRequestSchema datetime payload of
        (issues, Some d) \<Rightarrow> (if issues = [] then Inr d else Inl issues)
      | (issues, None) \<Rightarrow> Inl issues)"

text \<open>
  \<^verbatim>\<open>formatValidationErrors\<close>: the (field, message, code) triple of every issue, the
  field being the path joined by dots.
\<close>

definition formatValidationErrors :: "ZodIssue list \<Rightarrow> (string \<times> string \<times> string) list" where
  "formatValidationErrors errors =
     map (\<lambda>err. (str_join ''.'' (issue_path err), issue_message err, issue_code err)) errors"

section \<open>Dates\<close>

text \<open>
  A \<^verbatim>\<open>Date\<close> is its time value: milliseconds since 1970-01-01T00:00:00Z. A calendar
  date (\<^verbatim>\<open>YYYY-MM-DD\<close>, the \<^verbatim>\<open>DATE\<close> column) is modelled by its day number since
  1970-01-01 and a time of day (\<^verbatim>\<open>HH:MM:SS\<close>, the \<^verbatim>\<open>TIME\<close> column) by its second
  since midnight; the strings are their renderings.
\<close>

definition msPerDay :: int where
  "msPerDay = 86400000"

text \<open>\<^verbatim>\<open>timestamp.toISOString().split('T')[0]\<close>: the calendar date in UTC.\<close>

definition toISOString_date :: "int \<Rightarrow> int" where
  "toISOString_date t = t div msPerDay"

text \<open>
  \<^verbatim>\<open>timestamp.toTimeString().split(' ')[0]\<close>: the wall-clock time \<^verbatim>\<open>HH:MM:SS\<close> in the
  server's local time zone, \<open>off\<close> minutes east of UTC; milliseconds are not printed.
\<close>

definition toTimeString_time :: "int \<Rightarrow> int \<Rightarrow> int" where
  "toTimeString_time off t = ((t + off * 60000) div 1000) mod 86400"

text \<open>
  \<^verbatim>\<open>new Date(date + 'T' + time)\<close> on a date and a time without a zone designator: the
  date-time is read as local time.
\<close>

definition Date_of_local :: "int \<Rightarrow> int \<Rightarrow> int \<Rightarrow> int" where
  "Date_of_local off day secs = day * msPerDay + secs * 1000 - off * 60000"

text \<open>The same pair read as a UTC date-time.\<close>

definition Date_of_utc :: "int \<Rightarrow> int \<Rightarrow> int" where
  "Date_of_utc day secs = day * msPerDay + secs * 1000"

section \<open>The storage layer (\<^verbatim>\<open>migrations/004_v2_schema_sources.sql\<close>)\<close>

text \<open>
  The three tables of the migration, with the rows as lists and the constraints the
  migration declares. Identifiers (\<^verbatim>\<open>gen_random_uuid()\<close>) are drawn from a counter;
  the columns the database fills from its clock are left out. A store that is out of
  reach answers every call with the error in \<open>outage\<close>.
\<close>

datatype pg_error = PgError (err_code: string) (err_message: string)

record source_row =
  s_id :: nat
  source_type :: SourceType
  source_value :: string

record user_source_row =
  us_id :: nat
  user_id :: nat
  us_source_id :: nat
  is_active :: bool

record v2_transaction_row =
  t_id :: nat
  t_source_id :: nat
  t_amount :: rat
  t_currency :: string
  sender_name :: "string option"
  account_number :: "string option"
  transaction_date :: int
  transaction_time :: int
  raw_message :: string
  webhook_id :: string
  t_event :: string
  t_status :: string

record db =
  sources :: "source_row list"
  user_sources :: "user_source_row list"
  v2_transactions :: "v2_transaction_row list"
  next_uuid :: nat
  outage :: "pg_error option"

text \<open>
  \<^verbatim>\<open>.single()\<close>: the one row of the result, or the error with code \<^verbatim>\<open>PGRST116\<close> when
  the result has no row or several.
\<close>

definition PGRST116 :: pg_error where
  "PGRST116 = PgError ''PGRST116'' ''JSON object requested, multiple (or no) rows returned''"

definition single :: "'a list \<Rightarrow> pg_error + 'a" where
  "single rows = (case rows of [r] \<Rightarrow> Inr r | _ \<Rightarrow> Inl PGRST116)"

definition dq :: "string \<Rightarrow> string" where
  "dq s = [CHR 0x22] @ s @ [CHR 0x22]"

definition unique_violation :: "string \<Rightarrow> pg_error" where
  "unique_violation constraint_name =
     PgError ''23505'' (''duplicate key value violates unique constraint '' @ dq constraint_name)"

definition too_long :: "nat \<Rightarrow> pg_error" where
  "too_long n =
     PgError ''22001'' (''value too long for type character varying('' @
       (if n = 3 then ''3'' else if n = 10 then ''10'' else if n = 20 then ''20'' else ''255'') @ '')'')"

text \<open>The first constraint of a list that a row violates.\<close>

fun first_violation :: "(bool \<times> pg_error) list \<Rightarrow> pg_error option" where
  "first_violation [] = None"
| "first_violation ((ok, e) # cs) = (if ok then first_violation cs else Some e)"

text \<open>
  \<^verbatim>\<open>from('sources').select('*').eq('source_type', t).eq('source_value', v).single()\<close>
\<close>

definition select_source :: "db \<Rightarrow> SourceType \<Rightarrow> string \<Rightarrow> pg_error + source_row" where
  "select_source d t v =
     (case outage d of
        Some e \<Rightarrow> Inl e
      | None \<Rightarrow> single (filter (\<lambda>r. source_type r = t \<and> source_value r = v) (sources d)))"

text \<open>
  \<^verbatim>\<open>from('sources').insert({source_type, source_value}).select('*').single()\<close>, under
  \<^verbatim>\<open>source_value VARCHAR(255)\<close> and \<^verbatim>\<open>UNIQUE(source_type, source_value)\<close>.
\<close>

definition source_constraints :: "db \<Rightarrow> SourceType \<Rightarrow> string \<Rightarrow> (bool \<times> pg_error) list" where
  "source_constraints d t v =
     [(length v \<le> 255, too_long 255),
      (\<not> list_ex (\<lambda>r. source_type r = t \<and> source_value r = v) (sources d),
       unique_violation ''sources_source_type_source_value_key'')]"

definition insert_source :: "db \<Rightarrow> SourceType \<Rightarrow> string \<Rightarrow> (pg_error + source_row) \<times> db" where
  "insert_source d t v =
     (case outage d of
        Some e \<Rightarrow> (Inl e, d)
      | None \<Rightarrow>
          (case first_violation (source_constraints d t v) of
             Some e \<Rightarrow> (Inl e, d)
           | None \<Rightarrow>
               (let row = \<lparr>s_id = next_uuid d, source_type = t, source_value = v\<rparr>
                in (Inr row, d\<lparr>sources := sources d @ [row], next_uuid := next_uuid d + 1\<rparr>))))"

text \<open>
  \<^verbatim>\<open>from('user_sources').select('user_id').eq('source_id', id).eq('is_active', true)\<close>
\<close>

definition select_active_users :: "db \<Rightarrow> nat \<Rightarrow> pg_error + nat list" where
  "select_active_users d sourceId =
     (case outage d of
        Some e \<Rightarrow> Inl e
      | None \<Rightarrow> Inr (map user_id (filter (\<lambda>r. us_source_id r = sourceId \<and> is_active r)
                                        (user_sources d))))"

text \<open>
  \<^verbatim>\<open>from('v2_transactions').select(...).eq('webhook_id', id).single()\<close>
\<close>

definition select_transaction :: "db \<Rightarrow> string \<Rightarrow> pg_error + v2_transaction_row" where
  "select_transaction d wid =
     (case outage d of
        Some e \<Rightarrow> Inl e
      | None \<Rightarrow> single (filter (\<lambda>r. webhook_id r = wid) (v2_transactions d)))"

text \<open>
  The value a \<^verbatim>\<open>DECIMAL(12,2)\<close> column keeps of a number: rounded to two decimals,
  halves away from zero.
\<close>

definition decimal2 :: "rat \<Rightarrow> rat" where
  "decimal2 r =
     (if 0 \<le> r then of_int (floor (r * 100 + 1 / 2)) / 100
      else - (of_int (floor (- r * 100 + 1 / 2)) / 100))"

text \<open>
  The constraints of \<^verbatim>\<open>v2_transactions\<close> on a new row, in the order in which the
  database checks them: the column types, then the \<^verbatim>\<open>CHECK\<close> constraints, then
  \<^verbatim>\<open>webhook_id ... UNIQUE\<close>, then the foreign key to \<^verbatim>\<open>sources\<close>.
\<close>

definition check_violation :: "string \<Rightarrow> pg_error" where
  "check_violation constraint_name =
     PgError ''23514'' (''new row for relation '' @ dq ''v2_transactions'' @
       '' violates check constraint '' @ dq constraint_name)"

definition transaction_constraints :: "db \<Rightarrow> v2_transaction_row \<Rightarrow> (bool \<times> pg_error) list" where
  "transaction_constraints d r =
     [(\<bar>decimal2 (t_amount r)\<bar> < 10000000000, PgError ''22003'' ''numeric field overflow''),
      (length (t_currency r) \<le> 3, too_long 3),
      (case sender_name r of None \<Rightarrow> True | Some s \<Rightarrow> length s \<le> 255, too_long 255),
      (case account_number r of None \<Rightarrow> True | Some s \<Rightarrow> length s \<le> 10, too_long 10),
      (length (webhook_id r) \<le> 255, too_long 255),
      (length (t_event r) \<le> 20, too_long 20),
      (length (t_status r) \<le> 20, too_long 20),
      (0 < decimal2 (t_amount r), check_violation ''v2_transactions_amount_check''),
      (t_event r \<in> set [''deposit'', ''withdrawal'', ''transfer''],
       check_violation ''v2_transactions_event_check''),
      (t_status r \<in> set [''processed'', ''failed'', ''duplicate'', ''pending''],
       check_violation ''v2_transactions_status_check''),
      (\<not> list_ex (\<lambda>x. webhook_id x = webhook_id r) (v2_transactions d),
       unique_violation ''v2_transactions_webhook_id_key''),
      (list_ex (\<lambda>s. s_id s = t_source_id r) (sources d),
       PgError ''23503'' (''insert or update on table '' @ dq ''v2_transactions'' @
         '' violates foreign key constraint '' @ dq ''v2_transactions_source_id_fkey''))]"

text \<open>
  \<^verbatim>\<open>from('v2_transactions').insert(row).select('*').single()\<close>: the row is stored with
  a fresh identifier and the amount as the column keeps it, unless a constraint is
  violated.
\<close>

definition insert_transaction ::
  "db \<Rightarrow> v2_transaction_row \<Rightarrow> (pg_error + v2_transaction_row) \<times> db" where
  "insert_transaction d r =
     (case outage d of
        Some e \<Rightarrow> (Inl e, d)
      | None \<Rightarrow>
          (case first_violation (transaction_constraints d r) of
             Some e \<Rightarrow> (Inl e, d)
           | None \<Rightarrow>
               (let row = r\<lparr>t_id := next_uuid d, t_amount := decimal2 (t_amount r)\<rparr>
                in (Inr row,
                    d\<lparr>v2_transactions := v2_transactions d @ [row], next_uuid := next_uuid d + 1\<rparr>))))"

section \<open>\<^verbatim>\<open>V2DatabaseService\<close> (\<^verbatim>\<open>lib/v2-database.ts\<close>)\<close>

text \<open>
  Every method returns \<^verbatim>\<open>{data, error}\<close>, modelled as a pair of options (\<open>None\<close> for
  \<open>null\<close>; an \<^verbatim>\<open>Error\<close> is its message), together with the store it leaves. A method
  that awaits the store twice takes a function \<open>between\<close>: what other requests did to the
  store between its two calls (the identity when the request runs alone).
\<close>

record Source =
  src_id :: nat
  sourceType :: SourceType
  sourceValue :: string

definition transformDatabaseSource :: "source_row \<Rightarrow> Source" where
  "transformDatabaseSource dbSource =
     \<lparr>src_id = s_id dbSource, sourceType = source_type dbSource,
      sourceValue = source_value dbSource\<rparr>"

definition findOrCreateSource ::
  "(db \<Rightarrow> db) \<Rightarrow> SourceType \<Rightarrow> string \<Rightarrow> db \<Rightarrow> (Source option \<times> string option) \<times> db" where
  "findOrCreateSource between sourceType' sourceValue' d =
     (let create =
        (case insert_source (between d) sourceType' sourceValue' of
           (Inl createError, d') \<Rightarrow>
             ((None, Some (''Failed to create source: '' @ err_message createError)), d')
         | (Inr newSource, d') \<Rightarrow> ((Some (transformDatabaseSource newSource), None), d'))
      in case select_source d sourceType' sourceValue' of
           Inl findError \<Rightarrow>
             (if err_code findError \<noteq> ''PGRST116''
              then ((None, Some (''Failed to find source: '' @ err_message findError)), d)
              else create)
         | Inr existingSource \<Rightarrow> ((Some (transformDatabaseSource existingSource), None), d))"

definition getUsersForSource :: "nat \<Rightarrow> db \<Rightarrow> nat list \<times> string option" where
  "getUsersForSource sourceId d =
     (case select_active_users d sourceId of
        Inl err \<Rightarrow> ([], Some (''Failed to get users for source: '' @ err_message err))
      | Inr userIds \<Rightarrow> (userIds, None))"

text \<open>\<^verbatim>\<open>V2Transaction\<close>, as \<^verbatim>\<open>transformDatabaseV2Transaction\<close> builds it from a row.\<close>

record V2Transaction =
  tx_id :: nat
  tx_sourceId :: nat
  tx_amount :: rat
  tx_currency :: string
  tx_senderName :: string
  tx_accountNumber :: string
  tx_date :: int
  tx_time :: int
  tx_rawMessage :: string
  tx_webhookId :: string
  tx_event :: string
  tx_status :: string

definition transformDatabaseV2Transaction :: "runtime \<Rightarrow> v2_transaction_row \<Rightarrow> V2Transaction" where
  "transformDatabaseV2Transaction rt dbTransaction =
     \<lparr>tx_id = t_id dbTransaction,
      tx_sourceId = t_source_id dbTransaction,
      tx_amount = t_amount dbTransaction,
      tx_currency = t_currency dbTransaction,
      tx_senderName = (case sender_name dbTransaction of None \<Rightarrow> '''' | Some s \<Rightarrow> s),
      tx_accountNumber = (case account_number dbTransaction of None \<Rightarrow> '''' | Some s \<Rightarrow> s),
      tx_date = Date_of_local (tzOffsetMinutes rt) (transaction_date dbTransaction)
                  (transaction_time dbTransaction),
      tx_time = transaction_time dbTransaction,
      tx_rawMessage = raw_message dbTransaction,
      tx_webhookId = webhook_id dbTransaction,
      tx_event = t_event dbTransaction,
      tx_status = t_status dbTransaction\<rparr>"

text \<open>
  \<^verbatim>\<open>webhookData.metadata?.senderName || null\<close>: the string when the property is a
  non-empty string.
\<close>

definition metadata_string :: "(string \<times> jsval) list option \<Rightarrow> string \<Rightarrow> string option" where
  "metadata_string md k =
     (case md of
        None \<Rightarrow> None
      | Some props \<Rightarrow>
          (case js_get props k of
             JString s \<Rightarrow> (if s = [] then None else Some s)
           | _ \<Rightarrow> None))"

text \<open>The row \<^verbatim>\<open>createV2Transaction\<close> sends to the store:
  \<^verbatim>\<open>
    const timestamp = new Date(webhookData.timestamp);
    const transactionDate = timestamp.toISOString().split('T')[0];
    const transactionTime = timestamp.toTimeString().split(' ')[0];
    const transactionData = { source_id: sourceId, amount: webhookData.amount.toString(),
      currency: webhookData.currency || 'COP', ..., status: 'processed' };
  \<close>
\<close>

definition transactionData :: "runtime \<Rightarrow> nat \<Rightarrow> V2WebhookRequest \<Rightarrow> int \<Rightarrow> v2_transaction_row" where
  "transactionData rt sourceId webhookData t =
     \<lparr>t_id = 0,
      t_source_id = sourceId,
      t_amount = amount webhookData,
      t_currency = (case currency webhookData of
                      None \<Rightarrow> ''COP''
                    | Some c \<Rightarrow> (if c = [] then ''COP'' else c)),
      sender_name = metadata_string (metadata webhookData) ''senderName'',
      account_number = metadata_string (metadata webhookData) ''accountNumber'',
      transaction_date = toISOString_date t,
      transaction_time = toTimeString_time (tzOffsetMinutes rt) t,
      raw_message = message webhookData,
      webhook_id = webhookId webhookData,
      t_event = event webhookData,
      t_status = ''processed''\<rparr>"

text \<open>
  \<^verbatim>\<open>createV2Transaction\<close>: look for a row with the webhook id, then insert.
  \<^verbatim>\<open>toISOString\<close> throws a \<^verbatim>\<open>RangeError\<close> on an invalid date, which the method's
  \<^verbatim>\<open>catch\<close> returns as the error.
\<close>

definition createV2Transaction ::
  "runtime \<Rightarrow> (db \<Rightarrow> db) \<Rightarrow> nat \<Rightarrow> V2WebhookRequest \<Rightarrow> db
     \<Rightarrow> (V2Transaction option \<times> string option) \<times> db" where
  "createV2Transaction rt between sourceId webhookData d =
     (let insert =
        (case Date_parse rt (timestamp webhookData) of
           None \<Rightarrow> ((None, Some ''Invalid time value''), d)
         | Some t \<Rightarrow>
             (case insert_transaction (between d) (transactionData rt sourceId webhookData t) of
                (Inl insertError, d') \<Rightarrow>
                  ((None, Some (''Failed to insert transaction: '' @ err_message insertError)), d')
              | (Inr insertedTransaction, d') \<Rightarrow>
                  ((Some (transformDatabaseV2Transaction rt insertedTransaction), None), d')))
      in case select_transaction d (webhookId webhookData) of
           Inl duplicateError \<Rightarrow>
             (if err_code duplicateError \<noteq> ''PGRST116''
              then ((None, Some (''Failed to check for duplicates: '' @ err_message duplicateError)), d)
              else insert)
         | Inr existingTransaction \<Rightarrow> ((None, Some ''Duplicate webhook ID''), d))"

section \<open>The route handler (\<^verbatim>\<open>app/api/v2/webhook/transaction/route.ts\<close>, \<^verbatim>\<open>POST\<close>)\<close>

text \<open>
  The request as the handler reads it: four headers and the decoded JSON body (\<open>None\<close>
  when \<^verbatim>\<open>request.json()\<close> throws). The response is the HTTP status and the
  \<^verbatim>\<open>V2WebhookResponse\<close> body; logging is left out.
\<close>

record request =
  hdr_ContentLength :: "string option"
  hdr_XTimestamp :: "string option"
  hdr_Authorization :: "string option"
  hdr_ContentType :: "string option"
  json_body :: "jsval option"

datatype webhook_status = Processed | Error | Duplicate

record V2WebhookResponse =
  http_status :: nat
  resp_status :: webhook_status
  resp_error :: "string option"
  resp_webhookId :: jsval
  resp_transactionId :: "nat option"
  resp_sourceId :: "nat option"

text \<open>An error response without a source id.\<close>

definition error_response :: "nat \<Rightarrow> string \<Rightarrow> jsval \<Rightarrow> V2WebhookResponse" where
  "error_response http msg wid =
     \<lparr>http_status = http, resp_status = Error, resp_error = Some msg, resp_webhookId = wid,
      resp_transactionId = None, resp_sourceId = None\<rparr>"

text \<open>A header or an environment variable that is set and not the empty string.\<close>

definition present :: "string option \<Rightarrow> bool" where
  "present x = (case x of None \<Rightarrow> False | Some s \<Rightarrow> s \<noteq> [])"

text \<open>JavaScript's truthiness of a decoded JSON value.\<close>

fun js_truthy :: "jsval \<Rightarrow> bool" where
  "js_truthy JUndefined = False"
| "js_truthy JNull = False"
| "js_truthy (JBool b) = b"
| "js_truthy (JNumber n) = (n \<noteq> NaN \<and> n \<noteq> Finite 0)"
| "js_truthy (JString s) = (s \<noteq> [])"
| "js_truthy (JArray xs) = True"
| "js_truthy (JObject ps) = True"

text \<open>\<^verbatim>\<open>body?.webhookId || 'unknown'\<close>\<close>

definition body_webhookId :: "jsval \<Rightarrow> jsval" where
  "body_webhookId body =
     (let w = (case body of JObject props \<Rightarrow> js_get props ''webhookId'' | _ \<Rightarrow> JUndefined)
      in if js_truthy w then w else JString ''unknown'')"

text \<open>
  What other requests do to the store while this one runs, at each point where the
  handler has awaited the store and is about to call it again.
\<close>

record interleaving =
  in_findOrCreateSource :: "db \<Rightarrow> db"
  before_getUsersForSource :: "db \<Rightarrow> db"
  before_createV2Transaction :: "db \<Rightarrow> db"
  in_createV2Transaction :: "db \<Rightarrow> db"
  before_getV2TransactionByWebhookId :: "db \<Rightarrow> db"

definition alone :: interleaving where
  "alone = \<lparr>in_findOrCreateSource = (\<lambda>d. d), before_getUsersForSource = (\<lambda>d. d),
            before_createV2Transaction = (\<lambda>d. d), in_createV2Transaction = (\<lambda>d. d),
            before_getV2TransactionByWebhookId = (\<lambda>d. d)\<rparr>"

text \<open>
  The handler from \<^verbatim>\<open>// Initialize V2 Database Service\<close> on: the source type, the
  source, its users, the transaction.
\<close>

definition POST_store ::
  "runtime \<Rightarrow> interleaving \<Rightarrow> V2WebhookRequest \<Rightarrow> db \<Rightarrow> V2WebhookResponse \<times> db" where
  "POST_store rt il webhookData d =
     (let wid = JString (webhookId webhookData);
          sourceType' = inferSourceType (sourceTo webhookData)
      in case findOrCreateSource (in_findOrCreateSource il) sourceType' (sourceTo webhookData) d of
           ((Some src, None), d1) \<Rightarrow>
             (let d2 = before_getUsersForSource il d1 in
              case getUsersForSource (src_id src) d2 of
                (userIds, Some usersError) \<Rightarrow>
                  (error_response 500 ''Failed to find users for source'' wid, d2)
              | (userIds, None) \<Rightarrow>
                  (if length userIds = 0
                   then ((error_response 404 ''No users configured for this source'' wid)
                           \<lparr>resp_sourceId := Some (src_id src)\<rparr>, d2)
                   else
                     (case createV2Transaction rt (in_createV2Transaction il) (src_id src)
                             webhookData (before_createV2Transaction il d2) of
                        ((tr, Some transactionError), d3) \<Rightarrow>
                          (if str_includes transactionError ''Duplicate webhook ID''
                           then (\<lparr>http_status = 200, resp_status = Duplicate, resp_error = None,
                                   resp_webhookId = wid, resp_transactionId = None,
                                   resp_sourceId = Some (src_id src)\<rparr>, d3)
                           else (error_response 500 ''Failed to store transaction'' wid, d3))
                      | ((None, None), d3) \<Rightarrow>
                          (error_response 500 ''Transaction creation failed'' wid, d3)
                      | ((Some tr, None), d3) \<Rightarrow>
                          (\<lparr>http_status = 200, resp_status = Processed, resp_error = None,
                            resp_webhookId = wid, resp_transactionId = Some (tx_id tr),
                            resp_sourceId = Some (src_id src)\<rparr>, d3))))
         | (r, d1) \<Rightarrow> (error_response 500 ''Failed to process source'' wid, d1))"

text \<open>
  \<^verbatim>\<open>contentLength && parseInt(contentLength) > 20000\<close>
\<close>

definition payload_too_large :: "runtime \<Rightarrow> request \<Rightarrow> bool" where
  "payload_too_large rt req =
     (case hdr_ContentLength req of
        None \<Rightarrow> False
      | Some contentLength \<Rightarrow>
          contentLength \<noteq> [] \<and>
          (case parseInt rt contentLength of None \<Rightarrow> False | Some n \<Rightarrow> n > 20000))"

text \<open>
  The optional \<^verbatim>\<open>X-Timestamp\<close> header: the request is refused when
  \<^verbatim>\<open>now.getTime() - requestTime.getTime() > 10 * 60 * 1000\<close>, which is false when the
  header does not parse as a date.
\<close>

definition timestamp_too_old :: "runtime \<Rightarrow> request \<Rightarrow> bool" where
  "timestamp_too_old rt req =
     (case hdr_XTimestamp req of
        None \<Rightarrow> False
      | Some requestTimestamp \<Rightarrow>
          requestTimestamp \<noteq> [] \<and>
          (case Date_parse rt requestTimestamp of
             None \<Rightarrow> False
           | Some requestTime \<Rightarrow> Date_now rt - requestTime > 10 * 60 * 1000))"

text \<open>\<^verbatim>\<open>contentType && contentType.includes('application/json')\<close>\<close>

definition json_content_type :: "request \<Rightarrow> bool" where
  "json_content_type req =
     (case hdr_ContentType req of
        None \<Rightarrow> False
      | Some contentType \<Rightarrow> str_includes contentType ''application/json'')"

text \<open>
  The whole handler: the environment, the size of the payload, the age of the request,
  the bearer token (\<^verbatim>\<open>authHeader.replace('Bearer ', '')\<close> drops the prefix the header
  starts with), the content type, the body and its validation, then the store.
\<close>

definition POST :: "runtime \<Rightarrow> interleaving \<Rightarrow> request \<Rightarrow> db \<Rightarrow> V2WebhookResponse \<times> db" where
  "POST rt il req d =
     (let unknown = JString ''unknown'' in
      case WEBHOOK_SECRET rt of
        None \<Rightarrow> (error_response 500 ''Server configuration error'' unknown, d)
      | Some webhookSecret \<Rightarrow>
      if present (SUPABASE_URL rt) \<and> present (SUPABASE_SERVICE_ROLE_KEY rt) \<and> webhookSecret \<noteq> []
      then
        if payload_too_large rt req
        then (error_response 413 ''Request payload too large'' unknown, d)
        else if timestamp_too_old rt req
        then (error_response 400 ''Request timestamp too old'' unknown, d)
        else
          (case hdr_Authorization req of
             None \<Rightarrow> (error_response 401 ''Missing or invalid authorization header'' unknown, d)
           | Some authHeader \<Rightarrow>
               if str_startsWith authHeader ''Bearer ''
               then
                 if drop 7 authHeader = webhookSecret
                 then
                   if json_content_type req
                   then
                     (case json_body req of
                        None \<Rightarrow> (error_response 400 ''Invalid JSON payload'' unknown, d)
                      | Some body \<Rightarrow>
                          (case parseV2WebhookPayload (zod_datetime rt) body of
                             Inl validationError \<Rightarrow>
                               (error_response 400
                                  (''Validation failed: '' @
                                     str_join '', ''
                                       (map (\<lambda>(field, msg, code). field @ '': '' @ msg)
                                            (formatValidationErrors validationError)))
                                  (body_webhookId body), d)
                           | Inr webhookData \<Rightarrow> POST_store rt il webhookData d))
                   else (error_response 400 ''Content-Type must be application/json'' unknown, d)
                 else (error_response 401 ''Invalid webhook token'' unknown, d)
               else (error_response 401 ''Missing or invalid authorization header'' unknown, d))
      else (error_response 500 ''Server configuration error'' unknown, d))"

text \<open>A request that passes every check before the body is read.\<close>

definition passes_transport_checks :: "runtime \<Rightarrow> request \<Rightarrow> bool" where
  "passes_transport_checks rt req =
     (present (SUPABASE_URL rt) \<and> present (SUPABASE_SERVICE_ROLE_KEY rt) \<and>
      present (WEBHOOK_SECRET rt) \<and>
      \<not> payload_too_large rt req \<and> \<not> timestamp_too_old rt req \<and>
      (case hdr_Authorization req of
         None \<Rightarrow> False
       | Some authHeader \<Rightarrow>
           str_startsWith authHeader ''Bearer '' \<and> Some (drop 7 authHeader) = WEBHOOK_SECRET rt) \<and>
      json_content_type req)"

section \<open>The repository path (\<^verbatim>\<open>lib/repositories\<close>)\<close>

text \<open>
  \<^verbatim>\<open>SourceRepository\<close> hands every call to \<^verbatim>\<open>V2DatabaseService\<close> unchanged.
  \<^verbatim>\<open>TransactionRepository.createV2Transaction\<close> returns the transaction or \<open>null\<close>: a
  duplicate is \<open>null\<close>, and any other error is thrown and caught in the same method,
  which returns \<open>null\<close> again.
\<close>

definition TransactionRepository_createV2Transaction ::
  "runtime \<Rightarrow> (db \<Rightarrow> db) \<Rightarrow> nat \<Rightarrow> V2WebhookRequest \<Rightarrow> db \<Rightarrow> V2Transaction option \<times> db" where
  "TransactionRepository_createV2Transaction rt between sourceId webhookData d =
     (case createV2Transaction rt between sourceId webhookData d of
        ((tr, Some err), d') \<Rightarrow> (None, d')
      | ((tr, None), d') \<Rightarrow> (tr, d'))"

text \<open>
  \<^verbatim>\<open>getV2TransactionByWebhookId\<close>: the row with the webhook id; \<open>null\<close> when there is
  none, and when the store fails (the error is thrown and caught in the method).
\<close>

definition getV2TransactionByWebhookId :: "runtime \<Rightarrow> string \<Rightarrow> db \<Rightarrow> V2Transaction option" where
  "getV2TransactionByWebhookId rt wid d =
     (case select_transaction d wid of
        Inl err \<Rightarrow> None
      | Inr row \<Rightarrow> Some (transformDatabaseV2Transaction rt row))"

text \<open>The result of \<^verbatim>\<open>WebhookRepository.processV2Webhook\<close>.\<close>

record ProcessResult =
  success :: bool
  res_transactionId :: "nat option"
  res_sourceId :: "nat option"
  res_error :: "string option"
  isDuplicate :: "bool option"

definition failure :: "string \<Rightarrow> ProcessResult" where
  "failure msg = \<lparr>success = False, res_transactionId = None, res_sourceId = None,
                  res_error = Some msg, isDuplicate = None\<rparr>"

definition processV2Webhook ::
  "runtime \<Rightarrow> interleaving \<Rightarrow> V2WebhookRequest \<Rightarrow> db \<Rightarrow> ProcessResult \<times> db" where
  "processV2Webhook rt il webhookData d =
     (let sourceType' = inferSourceType (sourceTo webhookData)
      in case findOrCreateSource (in_findOrCreateSource il) sourceType' (sourceTo webhookData) d of
           ((Some src, None), d1) \<Rightarrow>
             (let d2 = before_getUsersForSource il d1 in
              case getUsersForSource (src_id src) d2 of
                (userIds, Some usersError) \<Rightarrow> (failure ''Failed to find users for source'', d2)
              | (userIds, None) \<Rightarrow>
                  (if length userIds = 0
                   then (failure ''No users configured for this source'', d2)
                   else
                     (case TransactionRepository_createV2Transaction rt (in_createV2Transaction il)
                             (src_id src) webhookData (before_createV2Transaction il d2) of
                        (None, d3) \<Rightarrow>
                          (let d4 = before_getV2TransactionByWebhookId il d3 in
                           case getV2TransactionByWebhookId rt (webhookId webhookData) d4 of
                             Some existingTransaction \<Rightarrow>
                               (\<lparr>success = True,
                                 res_transactionId = Some (tx_id existingTransaction),
                                 res_sourceId = Some (src_id src), res_error = None,
                                 isDuplicate = Some True\<rparr>, d4)
                           | None \<Rightarrow> (failure ''Failed to create transaction'', d4))
                      | (Some tr, d3) \<Rightarrow>
                          (\<lparr>success = True, res_transactionId = Some (tx_id tr),
                            res_sourceId = Some (src_id src), res_error = None,
                            isDuplicate = None\<rparr>, d3))))
         | (r, d1) \<Rightarrow> (failure ''Failed to process source'', d1))"

text \<open>
  The handler written on the repositories (the other \<^verbatim>\<open>POST\<close> of the route), from the
  validated payload on: \<^verbatim>\<open>webhookService.processWebhook(webhookData, 'v2')\<close> is
  \<^verbatim>\<open>processV2Webhook\<close>, and the result is answered with 200 or 400.
\<close>

definition POST_repository ::
  "runtime \<Rightarrow> interleaving \<Rightarrow> V2WebhookRequest \<Rightarrow> db \<Rightarrow> V2WebhookResponse \<times> db" where
  "POST_repository rt il webhookData d =
     (case processV2Webhook rt il webhookData d of
        (res, d') \<Rightarrow>
          (if success res
           then (\<lparr>http_status = 200,
                   resp_status = (if isDuplicate res = Some True then Duplicate else Processed),
                   resp_error = None, resp_webhookId = JString (webhookId webhookData),
                   resp_transactionId = res_transactionId res,
                   resp_sourceId = res_sourceId res\<rparr>, d')
           else (\<lparr>http_status = 400, resp_status = Error, resp_error = res_error res,
                   resp_webhookId = JString (webhookId webhookData),
                   resp_transactionId = None, resp_sourceId = None\<rparr>, d')))"

section \<open>A concrete runtime\<close>

text \<open>
  For evaluating the handlers on concrete requests: ISO 8601 date-times in UTC
  (\<^verbatim>\<open>YYYY-MM-DDTHH:MM:SS\<close>, an optional fraction, \<open>Z\<close>) with their time value, and
  \<^verbatim>\<open>parseInt\<close> on decimal digits.
\<close>

definition digit_val :: "char \<Rightarrow> int" where
  "digit_val c = int (of_char c) - 48"

definition digits_val :: "string \<Rightarrow> int" where
  "digits_val s = foldl (\<lambda>n c. 10 * n + digit_val c) 0 s"

definition is_leap :: "int \<Rightarrow> bool" where
  "is_leap y = (if y mod 100 = 0 then y mod 400 = 0 else y mod 4 = 0)"

definition days_in_month :: "int \<Rightarrow> int \<Rightarrow> int" where
  "days_in_month y m =
     (if m = 2 then (if is_leap y then 29 else 28)
      else if m \<in> {4, 6, 9, 11} then 30 else 31)"

text \<open>The day number of a date of the proleptic Gregorian calendar.\<close>

definition days_from_civil :: "int \<Rightarrow> int \<Rightarrow> int \<Rightarrow> int" where
  "days_from_civil y m dd =
     (let y' = (if m \<le> 2 then y - 1 else y);
          era = y' div 400;
          yoe = y' - era * 400;
          doy = (153 * (if m > 2 then m - 3 else m + 9) + 2) div 5 + dd - 1;
          doe = yoe * 365 + yoe div 4 - yoe div 100 + doy
      in era * 146097 + doe - 719468)"

definition iso_Date_parse :: "string \<Rightarrow> int option" where
  "iso_Date_parse s =
     (let frac = drop 19 (butlast s);
          y = digits_val (take 4 s); mo = digits_val (take 2 (drop 5 s));
          dd = digits_val (take 2 (drop 8 s)); h = digits_val (take 2 (drop 11 s));
          mi = digits_val (take 2 (drop 14 s)); se = digits_val (take 2 (drop 17 s));
          ms = (if frac = [] then 0 else digits_val (take 3 (tl frac @ ''00'')))
      in if 20 \<le> length s \<and> last s = CHR ''Z'' \<and>
            list_all is_digit (take 4 s @ take 2 (drop 5 s) @ take 2 (drop 8 s) @
                               take 2 (drop 11 s) @ take 2 (drop 14 s) @ take 2 (drop 17 s)) \<and>
            [s ! 4, s ! 7, s ! 10, s ! 13, s ! 16] = ''--T::'' \<and>
            (frac = [] \<or> (hd frac = CHR ''.'' \<and> tl frac \<noteq> [] \<and> list_all is_digit (tl frac))) \<and>
            1 \<le> mo \<and> mo \<le> 12 \<and> 1 \<le> dd \<and> dd \<le> days_in_month y mo \<and>
            h \<le> 23 \<and> mi \<le> 59 \<and> se \<le> 59
         then Some (days_from_civil y mo dd * msPerDay + h * 3600000 + mi * 60000 + se * 1000 + ms)
         else None)"

definition decimal_parseInt :: "string \<Rightarrow> int option" where
  "decimal_parseInt s =
     (let ds = takeWhile is_digit s in if ds = [] then None else Some (digits_val ds))"

text \<open>A server whose local zone is \<open>off\<close> minutes east of UTC, at the given time.\<close>

definition server :: "int \<Rightarrow> int \<Rightarrow> runtime" where
  "server off clock =
     \<lparr>parseInt = decimal_parseInt, Date_parse = iso_Date_parse, tzOffsetMinutes = off,
      Date_now = clock, zod_datetime = (\<lambda>s. iso_Date_parse s \<noteq> None),
      SUPABASE_URL = Some ''https://project.supabase.co'',
      SUPABASE_SERVICE_ROLE_KEY = Some ''service-role-key'',
      WEBHOOK_SECRET = Some ''secret''\<rparr>"

section \<open>The message grammar parser\<close>

text \<open>
  \<^verbatim>\<open>parseBancolombiaSMS\<close> of \<^verbatim>\<open>lib/sms-parser.ts\<close> is not among the sources; only
  its callers (\<^verbatim>\<open>processSMSWebhook\<close> and the SMS route), the type of its result and the
  pattern of the template (in \<^verbatim>\<open>docs/architecture.md\<close>) are. Every function of this
  section is modelled from the spec, section 4.1: on a match the result holds the amount
  with the comma separators stripped, parsed as a positive number, the trimmed sender
  name, the account digits, a date constructed from the \<^verbatim>\<open>DD/MM/YYYY\<close> components,
  where an impossible calendar date is a parse failure, and the time in 24-hour
  \<^verbatim>\<open>HH:MM\<close> form; on no match or malformed numeric or date fields the result is a
  failure that carries a human-readable \<open>errorReason\<close>.
\<close>

text \<open>
  \<^verbatim>\<open>ParsedMessage\<close> (\<^verbatim>\<open>lib/types.ts\<close>). The amount of the template is a whole number,
  and the date is held as its day number.
\<close>

record ParsedMessage =
  pm_amount :: int
  pm_senderName :: string
  pm_account :: string
  pm_date :: int
  pm_time :: string
  pm_success :: bool
  pm_errorReason :: "string option"

text \<open>
  Modelled from the spec: the fixed grammar of the parser, which is missing with it, in
  the form of the pattern that the documentation gives,
  \<^verbatim>\<open>/Bancolombia:\s*Recibiste una transferencia por \$([0-9,]+) de ([A-Z\s]+) en tu cuenta \*\*(\d+), el (\d{2}\/\d{2}\/\d{4}) a las (\d{2}:\d{2})/\<close>.
  First the character classes and the shapes of the date and time groups.
\<close>

definition strip_prefix :: "string \<Rightarrow> string \<Rightarrow> string option" where
  "strip_prefix p s = (if str_startsWith s p then Some (drop (length p) s) else None)"

definition is_amount_char :: "char \<Rightarrow> bool" where
  "is_amount_char c = (is_digit c \<or> c = CHR '','')"

definition is_name_char :: "char \<Rightarrow> bool" where
  "is_name_char c = (is_upper c \<or> is_space c)"

definition is_date_group :: "string \<Rightarrow> bool" where
  "is_date_group g =
     (length g = 10 \<and> list_all is_digit (take 2 g @ take 2 (drop 3 g) @ drop 6 g) \<and>
      [g ! 2, g ! 5] = ''//'')"

definition is_time_group :: "string \<Rightarrow> bool" where
  "is_time_group g =
     (length g = 5 \<and> list_all is_digit (take 2 g @ drop 3 g) \<and> g ! 2 = CHR '':'')"

text \<open>
  Modelled from the spec: a match of the pattern at the start of a string, with its five
  groups (the matcher of the missing parser). Each group is greedy. The amount and the
  account are followed by a character outside their class, so they are the longest run of
  their class; the sender group is followed by a space and a lower-case letter, so it
  ends one character before the end of the longest run of capitals and white space.
\<close>

definition match_here :: "string \<Rightarrow> (string \<times> string \<times> string \<times> string \<times> string) option" where
  "match_here s =
     (case strip_prefix ''Bancolombia:'' s of
        None \<Rightarrow> None
      | Some s1 \<Rightarrow>
     (case strip_prefix ''Recibiste una transferencia por $'' (dropWhile is_space s1) of
        None \<Rightarrow> None
      | Some s2 \<Rightarrow>
     (case strip_prefix '' de '' (dropWhile is_amount_char s2) of
        None \<Rightarrow> None
      | Some s3 \<Rightarrow>
     (case strip_prefix ''en tu cuenta **'' (dropWhile is_name_char s3) of
        None \<Rightarrow> None
      | Some s4 \<Rightarrow>
     (case strip_prefix '', el '' (dropWhile is_digit s4) of
        None \<Rightarrow> None
      | Some s5 \<Rightarrow>
     (case strip_prefix '' a las '' (drop 10 s5) of
        None \<Rightarrow> None
      | Some s6 \<Rightarrow>
          (let amt = takeWhile is_amount_char s2;
               run = takeWhile is_name_char s3;
               acct = takeWhile is_digit s4
           in if amt \<noteq> [] \<and> 2 \<le> length run \<and> last run = CHR '' '' \<and> acct \<noteq> [] \<and>
                 is_date_group (take 10 s5) \<and> is_time_group (take 5 s6)
              then Some (amt, butlast run, acct, take 10 s5, take 5 s6)
              else None)))))))"

text \<open>
  Modelled from the spec: the pattern is not anchored, so the match of a message (in the
  missing parser, \<^verbatim>\<open>message.match(pattern)\<close>) is the match at the first position where
  there is one.
\<close>

fun match_template :: "string \<Rightarrow> (string \<times> string \<times> string \<times> string \<times> string) option" where
  "match_template [] = match_here []"
| "match_template (c # cs) =
     (case match_here (c # cs) of Some groups \<Rightarrow> Some groups | None \<Rightarrow> match_template cs)"

text \<open>Modelled from the spec: the sender name of the missing parser is trimmed (\<^verbatim>\<open>s.trim()\<close>).\<close>

definition str_trim :: "string \<Rightarrow> string" where
  "str_trim s = rev (dropWhile is_space (rev (dropWhile is_space s)))"

text \<open>
  Modelled from the spec: the date check of the missing parser. A day, a month and a year
  name a date of the calendar; month 13 and day 32 do not.
\<close>

definition is_calendar_date :: "int \<Rightarrow> int \<Rightarrow> int \<Rightarrow> bool" where
  "is_calendar_date dd mm yyyy = (1 \<le> mm \<and> mm \<le> 12 \<and> 1 \<le> dd \<and> dd \<le> days_in_month yyyy mm)"

text \<open>
  Modelled from the spec: the failure result of the missing parser, which carries a
  reason and no field that is relied upon.
\<close>

definition parse_failure :: "string \<Rightarrow> ParsedMessage" where
  "parse_failure reason =
     \<lparr>pm_amount = 0, pm_senderName = [], pm_account = [], pm_date = 0, pm_time = [],
      pm_success = False, pm_errorReason = Some reason\<rparr>"

text \<open>
  Modelled from the spec: \<^verbatim>\<open>parseBancolombiaSMS\<close>, the missing parser. The wording of the
  reasons is the model's; the spec asks for a human-readable reason.
\<close>

definition parseBancolombiaSMS :: "string \<Rightarrow> ParsedMessage" where
  "parseBancolombiaSMS msg =
     (case match_template msg of
        None \<Rightarrow> parse_failure ''Message does not match the Bancolombia transfer format''
      | Some (amt, sender, acct, dt, tm) \<Rightarrow>
          (let n = digits_val (filter is_digit amt);
               dd = digits_val (take 2 dt); mm = digits_val (take 2 (drop 3 dt));
               yyyy = digits_val (drop 6 dt);
               h = digits_val (take 2 tm); mi = digits_val (drop 3 tm)
           in if n \<le> 0 then parse_failure ''Invalid amount''
              else if is_calendar_date dd mm yyyy
              then
                if h \<le> 23 \<and> mi \<le> 59
                then \<lparr>pm_amount = n, pm_senderName = str_trim sender, pm_account = acct,
                       pm_date = days_from_civil yyyy mm dd, pm_time = tm,
                       pm_success = True, pm_errorReason = None\<rparr>
                else parse_failure ''Invalid time''
              else parse_failure ''Invalid date''))"

section \<open>Concrete requests and stores\<close>

text \<open>
  The structured payload of the end-to-end scenario (amount 75000, webhook id
  \<^verbatim>\<open>dup-1\<close>, no currency), an authorised JSON request that carries a body, a store in
  which one user subscribes to the payload's \<open>sourceTo\<close>, and an empty store.
\<close>

definition payload_fields :: "(string \<times> jsval) list" where
  "payload_fields =
     [(''source'', JString ''bancolombia''),
      (''timestamp'', JString ''2025-09-04T08:06:00Z''),
      (''sourceFrom'', JString ''bancolombia@noreply.com''),
      (''sourceTo'', JString ''jdcadavid96@gmail.com''),
      (''event'', JString ''deposit''),
      (''message'', JString ''Recibiste una transferencia''),
      (''webhookId'', JString ''dup-1'')]"

definition payload_dup1 :: jsval where
  "payload_dup1 = JObject ((''amount'', JNumber (Finite 75000)) # payload_fields)"

definition request_with :: "jsval \<Rightarrow> request" where
  "request_with body =
     \<lparr>hdr_ContentLength = None, hdr_XTimestamp = None,
      hdr_Authorization = Some ''Bearer secret'',
      hdr_ContentType = Some ''application/json'', json_body = Some body\<rparr>"

definition store_subscribed :: db where
  "store_subscribed =
     \<lparr>sources = [\<lparr>s_id = 1, source_type = Email, source_value = ''jdcadavid96@gmail.com''\<rparr>],
      user_sources = [\<lparr>us_id = 2, user_id = 7, us_source_id = 1, is_active = True\<rparr>],
      v2_transactions = [], next_uuid = 3, outage = None\<rparr>"

definition store_empty :: db where
  "store_empty =
     \<lparr>sources = [], user_sources = [], v2_transactions = [], next_uuid = 1, outage = None\<rparr>"

text \<open>The payload as the validator returns it.\<close>

definition webhook_dup1 :: V2WebhookRequest where
  "webhook_dup1 =
     \<lparr>source = ''bancolombia'', timestamp = ''2025-09-04T08:06:00Z'',
      sourceFrom = ''bancolombia@noreply.com'', sourceTo = ''jdcadavid96@gmail.com'',
      event = ''deposit'', message = ''Recibiste una transferencia'', amount = 75000,
      currency = None, webhookId = ''dup-1'', metadata = None\<rparr>"

text \<open>
  A second delivery of the same request that is handled, alone and to its end, while the
  first one waits between its duplicate check and its insert.
\<close>

definition racing_delivery :: interleaving where
  "racing_delivery =
     alone\<lparr>in_createV2Transaction :=
              (\<lambda>d. snd (POST (server 0 0) alone (request_with payload_dup1) d))\<rparr>"

text \<open>
  A concurrent first sighting of the same address: another request finds or creates the
  source between this request's lookup and its insert.
\<close>

definition racing_sighting :: "db \<Rightarrow> db" where
  "racing_sighting d = snd (findOrCreateSource (\<lambda>x. x) Email ''jdcadavid96@gmail.com'' d)"




text \<open>
  Two more deliveries: one whose timestamp is 02:06 UTC, which is 21:06 of the day before
  in a zone five hours west of UTC, and one whose timestamp has a fraction of a second.
\<close>

definition webhook_night :: V2WebhookRequest where
  "webhook_night = webhook_dup1\<lparr>timestamp := ''2025-09-04T02:06:00Z'', webhookId := ''night-1''\<rparr>"

definition webhook_fraction :: V2WebhookRequest where
  "webhook_fraction =
     webhook_dup1\<lparr>timestamp := ''2025-09-04T08:06:00.500Z'', webhookId := ''fraction-1''\<rparr>"

section \<open>Properties\<close>

subsection \<open>Source-type inference\<close>

lemma str_startsWith_char: "str_startsWith s [c] \<longleftrightarrow> (\<exists>r. s = c # r)"
  by (cases s) auto

lemma str_includes_char: "str_includes s [c] \<longleftrightarrow> c \<in> set s"
  by (induction s) (auto simp: str_startsWith_char)

text \<open>
  Claim C9. Source-type inference gives the \<open>@\<close> test strict precedence over the
  \<open>+\<close> test: a \<open>sourceTo\<close> that contains \<open>@\<close> anywhere is an email, also when it
  starts with \<open>+\<close>; it is a phone exactly when it starts with \<open>+\<close> and contains no
  \<open>@\<close>; every other string is a webhook.
\<close>

theorem inferSourceType_precedence:
  "(CHR ''@'' \<in> set s \<longrightarrow> inferSourceType s = Email) \<and>
   (inferSourceType s = Phone \<longleftrightarrow> (\<exists>r. s = CHR ''+'' # r) \<and> CHR ''@'' \<notin> set s) \<and>
   (inferSourceType s = Webhook \<longleftrightarrow> \<not> (\<exists>r. s = CHR ''+'' # r) \<and> CHR ''@'' \<notin> set s)"
  by (simp add: inferSourceType_def str_includes_char str_startsWith_char)

theorem inferSourceType_precedence_witness:
  "CHR ''@'' \<in> set ''+573001234567@sms.example.com'' \<and>
   inferSourceType ''+573001234567@sms.example.com'' = Email"
  using inferSourceType_precedence [of "''+573001234567@sms.example.com''"] by simp

subsection \<open>The amount bound\<close>

lemma js_get_Cons: "js_get ((k, v) # rest) k' = (if k' = k then v else js_get rest k')"
  by (simp add: js_get_def)

lemma js_less_eq_Finite:
  "js_less_eq n (Finite c) \<longleftrightarrow>
     (case n of Finite r \<Rightarrow> r \<le> c | NegInfinity \<Rightarrow> True | _ \<Rightarrow> False)"
  by (cases n) (auto simp: js_less_eq_def)

lemma js_greater_Finite:
  "js_greater n (Finite c) \<longleftrightarrow>
     (case n of Finite r \<Rightarrow> c < r | PosInfinity \<Rightarrow> True | _ \<Rightarrow> False)"
  by (cases n) (auto simp: js_greater_def)

lemma amountSchema_no_issue_iff:
  "fst (amountSchema path v) = [] \<longleftrightarrow>
     (\<exists>r. v = JNumber (Finite r) \<and> 0 < r \<and> r \<le> 999999999999)"
proof (cases v)
  case (JNumber n)
  then show ?thesis
    by (cases n) (auto simp: amountSchema_def zod_check_def js_less_eq_Finite js_greater_Finite)
qed (simp_all add: amountSchema_def)

lemma amountValue_accepts_iff:
  "(\<exists>r. amountValue path v = ([], Some r)) \<longleftrightarrow>
     (\<exists>r. v = JNumber (Finite r) \<and> 0 < r \<and> r \<le> 999999999999)"
  using amountSchema_no_issue_iff [of path v]
  apply (cases "amountSchema path v")
  apply (auto simp: amountValue_def split: option.splits jsnum.splits)
     apply (auto simp: amountSchema_def zod_check_def split: if_splits)
  done

lemma payload_accepted_iff_amountValue:
  assumes "parseV2WebhookPayload dt (JObject ((''amount'', JNumber (Finite 1)) # rest)) = Inr d0"
  shows "(\<exists>d. parseV2WebhookPayload dt (JObject ((''amount'', v) # rest)) = Inr d) \<longleftrightarrow>
         (\<exists>r. amountValue [''amount''] v = ([], Some r))"
  using assms
  apply (cases "amountValue [''amount''] v")
  apply (simp add: parseV2WebhookPayload_def v2WebhookRequestSchema_def js_get_Cons Let_def
      split: prod.splits option.splits if_splits)
  done

text \<open>
  Claim C8. The structured validator accepts an amount if and only if it is a strictly
  positive finite number less than or equal to 999,999,999,999: a payload whose other
  properties are valid (it is accepted with the amount 1) is accepted with the amount
  \<open>v\<close> exactly when \<open>v\<close> is such a number. In particular -100 is rejected, 999999999999
  is accepted and 9999999999999 is rejected (the witness).
\<close>

theorem amount_accepted_iff:
  assumes "parseV2WebhookPayload dt (JObject ((''amount'', JNumber (Finite 1)) # rest)) = Inr d0"
  shows "(\<exists>d. parseV2WebhookPayload dt (JObject ((''amount'', v) # rest)) = Inr d) \<longleftrightarrow>
         (\<exists>r. v = JNumber (Finite r) \<and> 0 < r \<and> r \<le> 999999999999)"
  using payload_accepted_iff_amountValue [OF assms] amountValue_accepts_iff by simp


theorem amount_accepted_iff_witness:
  "(\<nexists>d. parseV2WebhookPayload (zod_datetime (server 0 0))
          (JObject ((''amount'', JNumber (Finite (- 100))) # payload_fields)) = Inr d) \<and>
   (\<exists>d. parseV2WebhookPayload (zod_datetime (server 0 0))
          (JObject ((''amount'', JNumber (Finite 999999999999)) # payload_fields)) = Inr d) \<and>
   (\<nexists>d. parseV2WebhookPayload (zod_datetime (server 0 0))
          (JObject ((''amount'', JNumber (Finite 9999999999999)) # payload_fields)) = Inr d)"
proof -
  have base: "parseV2WebhookPayload (zod_datetime (server 0 0))
                (JObject ((''amount'', JNumber (Finite 1)) # payload_fields)) =
              Inr (webhook_dup1\<lparr>amount := 1\<rparr>)"
    by code_simp
  show ?thesis
    using amount_accepted_iff [OF base, of "JNumber (Finite (- 100))"]
          amount_accepted_iff [OF base, of "JNumber (Finite 999999999999)"]
          amount_accepted_iff [OF base, of "JNumber (Finite 9999999999999)"]
    by simp
qed

subsection \<open>The currency default\<close>

lemma currency_omitted_is_None:
  assumes "js_get props ''currency'' = JUndefined"
      and "parseV2WebhookPayload dt (JObject props) = Inr d"
  shows "currency d = None"
  using assms
  by (auto simp: parseV2WebhookPayload_def v2WebhookRequestSchema_def currencySchema_def
        zod_optional_def Let_def split: prod.splits option.splits if_splits)

text \<open>
  Claim C4. For a payload that omits \<open>currency\<close> and is otherwise valid, the claim has the
  validator return a payload with currency \<open>COP\<close>. On the payload of the end-to-end
  scenario the validator succeeds and returns no currency at all: the optional wrapper
  answers \<open>undefined\<close> before the default is reached. \<open>COP\<close> appears only in the row that
  \<^verbatim>\<open>createV2Transaction\<close> builds (\<^verbatim>\<open>webhookData.currency || 'COP'\<close>).
\<close>

theorem omitted_currency_stays_undefined:
  "parseV2WebhookPayload (zod_datetime (server 0 0)) payload_dup1 = Inr webhook_dup1 \<and>
   currency webhook_dup1 = None \<and>
   t_currency (transactionData (server 0 0) 1 webhook_dup1 1756973160000) = ''COP''"
  by code_simp

subsection \<open>Duplicate deliveries\<close>

text \<open>
  Deliveries that follow one another. When the route handler has answered a delivery
  with \<open>processed\<close>, the store holds exactly one row with the webhook id, and a second
  delivery of the same payload is answered 200 with status \<open>duplicate\<close> and leaves the
  store as it is; the answer has the source id of the first and no transaction id.
\<close>

lemma first_violation_None_iff: "first_violation cs = None \<longleftrightarrow> list_all fst cs"
  by (induction cs) (auto split: if_splits)

lemma filter_snoc_new:
  assumes "\<not> list_ex P xs" and "P x"
  shows "filter P (xs @ [x]) = [x]"
  using assms by (simp add: list_ex_iff filter_empty_conv)

lemma insert_source_Inr:
  assumes "insert_source d t v = (Inr row, d')"
  shows "outage d = None \<and> \<not> list_ex (\<lambda>r. source_type r = t \<and> source_value r = v) (sources d) \<and>
         row = \<lparr>s_id = next_uuid d, source_type = t, source_value = v\<rparr> \<and>
         d' = d\<lparr>sources := sources d @ [row], next_uuid := next_uuid d + 1\<rparr>"
proof -
  from assms have o: "outage d = None"
    by (auto simp: insert_source_def split: option.splits)
  from assms o have fv: "first_violation (source_constraints d t v) = None"
    by (auto simp: insert_source_def split: option.splits)
  then have "list_all fst (source_constraints d t v)"
    by (simp only: first_violation_None_iff)
  then have "\<not> list_ex (\<lambda>r. source_type r = t \<and> source_value r = v) (sources d)"
    by (simp add: source_constraints_def)
  then show ?thesis
    using assms o fv by (auto simp: insert_source_def Let_def)
qed

lemma insert_transaction_Inr:
  assumes "insert_transaction d r = (Inr row, d')"
  shows "outage d = None \<and> \<not> list_ex (\<lambda>x. webhook_id x = webhook_id r) (v2_transactions d) \<and>
         row = r\<lparr>t_id := next_uuid d, t_amount := decimal2 (t_amount r)\<rparr> \<and>
         d' = d\<lparr>v2_transactions := v2_transactions d @ [row], next_uuid := next_uuid d + 1\<rparr>"
proof -
  from assms have o: "outage d = None"
    by (auto simp: insert_transaction_def split: option.splits)
  from assms o have fv: "first_violation (transaction_constraints d r) = None"
    by (auto simp: insert_transaction_def split: option.splits)
  then have "list_all fst (transaction_constraints d r)"
    by (simp only: first_violation_None_iff)
  then have "\<not> list_ex (\<lambda>x. webhook_id x = webhook_id r) (v2_transactions d)"
    by (simp add: transaction_constraints_def)
  then show ?thesis
    using assms o fv by (auto simp: insert_transaction_def Let_def)
qed

lemma findOrCreateSource_then_found:
  assumes "findOrCreateSource (\<lambda>x. x) t v d = ((Some src, None), da)"
  shows "outage da = None \<and>
         (\<exists>row. filter (\<lambda>r. source_type r = t \<and> source_value r = v) (sources da) = [row] \<and>
                transformDatabaseSource row = src)"
proof (cases "select_source d t v")
  case (Inr row)
  then have o: "outage d = None"
    by (auto simp: select_source_def split: option.splits)
  with Inr have "filter (\<lambda>r. source_type r = t \<and> source_value r = v) (sources d) = [row]"
    by (auto simp: select_source_def single_def split: list.splits)
  with assms Inr o show ?thesis
    by (auto simp: findOrCreateSource_def)
next
  case (Inl e)
  with assms obtain row where
    ins: "insert_source d t v = (Inr row, da)" and src: "src = transformDatabaseSource row"
    by (auto simp: findOrCreateSource_def split: if_splits sum.splits prod.splits)
  note i = insert_source_Inr [OF ins]
  have "filter (\<lambda>r. source_type r = t \<and> source_value r = v) (sources da) = [row]"
    using filter_snoc_new [of "\<lambda>r. source_type r = t \<and> source_value r = v" "sources d" row] i
    by simp
  then show ?thesis
    using i src by simp
qed

lemma createV2Transaction_then_found:
  assumes "createV2Transaction rt (\<lambda>x. x) sid p da = ((Some tr, None), d1)"
  shows "\<exists>row. filter (\<lambda>r. webhook_id r = webhookId p) (v2_transactions d1) = [row] \<and>
           t_id row = tx_id tr \<and>
           v2_transactions d1 = v2_transactions da @ [row] \<and>
           \<not> list_ex (\<lambda>r. webhook_id r = webhookId p) (v2_transactions da) \<and>
           sources d1 = sources da \<and> user_sources d1 = user_sources da \<and> outage d1 = None"
proof -
  from assms obtain t row where
    ins: "insert_transaction da (transactionData rt sid p t) = (Inr row, d1)"
    and tr: "tr = transformDatabaseV2Transaction rt row"
    by (auto simp: createV2Transaction_def split: sum.splits if_splits prod.splits option.splits)
  note i = insert_transaction_Inr [OF ins]
  have w: "webhook_id (transactionData rt sid p t) = webhookId p"
    by (simp add: transactionData_def)
  have row: "webhook_id row = webhookId p"
    using i w by simp
  have nw: "\<not> list_ex (\<lambda>r. webhook_id r = webhookId p) (v2_transactions da)"
    using i w by simp
  have "filter (\<lambda>r. webhook_id r = webhookId p) (v2_transactions d1) = [row]"
    using filter_snoc_new [of "\<lambda>r. webhook_id r = webhookId p" "v2_transactions da" row] nw row i
    by simp
  then show ?thesis
    using tr i nw by (simp add: transformDatabaseV2Transaction_def)
qed


lemma includes_duplicate: "str_includes ''Duplicate webhook ID'' ''Duplicate webhook ID''"
  by code_simp

lemma redelivery_is_duplicate:
  assumes "POST_store rt alone p d = (r1, d1)" and "resp_status r1 = Processed"
  shows "POST_store rt alone p d1 =
           (\<lparr>http_status = 200, resp_status = Duplicate, resp_error = None,
              resp_webhookId = JString (webhookId p), resp_transactionId = None,
              resp_sourceId = resp_sourceId r1\<rparr>, d1) \<and>
         (\<exists>row. filter (\<lambda>r. webhook_id r = webhookId p) (v2_transactions d1) = [row] \<and>
                resp_transactionId r1 = Some (t_id row))"
proof -
  let ?t = "inferSourceType (sourceTo p)" and ?v = "sourceTo p"
  from assms obtain src da where
    f: "findOrCreateSource (\<lambda>x. x) ?t ?v d = ((Some src, None), da)"
    by (auto simp: POST_store_def alone_def Let_def error_response_def
          split: prod.splits option.splits if_splits)
  from assms f obtain us where
    u: "getUsersForSource (src_id src) da = (us, None)" and us: "us \<noteq> []"
    by (auto simp: POST_store_def alone_def Let_def error_response_def
          split: prod.splits option.splits if_splits)
  from assms f u us obtain tr where
    c: "createV2Transaction rt (\<lambda>x. x) (src_id src) p da = ((Some tr, None), d1)"
    and r1: "resp_transactionId r1 = Some (tx_id tr)" "resp_sourceId r1 = Some (src_id src)"
    by (auto simp: POST_store_def alone_def Let_def error_response_def
          split: prod.splits option.splits if_splits)
  from findOrCreateSource_then_found [OF f] obtain srow where
    oa: "outage da = None"
    and sf: "filter (\<lambda>r. source_type r = ?t \<and> source_value r = ?v) (sources da) = [srow]"
    and st: "transformDatabaseSource srow = src"
    by auto
  from createV2Transaction_then_found [OF c] obtain row where
    tf: "filter (\<lambda>r. webhook_id r = webhookId p) (v2_transactions d1) = [row]"
    and ti: "t_id row = tx_id tr"
    and fr: "sources d1 = sources da" "user_sources d1 = user_sources da" "outage d1 = None"
    by auto
  have f2: "findOrCreateSource (\<lambda>x. x) ?t ?v d1 = ((Some src, None), d1)"
    using sf st fr by (simp add: findOrCreateSource_def select_source_def single_def)
  have u2: "getUsersForSource (src_id src) d1 = (us, None)"
    using u oa fr by (simp add: getUsersForSource_def select_active_users_def)
  have c2: "createV2Transaction rt (\<lambda>x. x) (src_id src) p d1 = ((None, Some ''Duplicate webhook ID''), d1)"
    using tf fr by (simp add: createV2Transaction_def select_transaction_def single_def)
  have "POST_store rt alone p d1 =
           (\<lparr>http_status = 200, resp_status = Duplicate, resp_error = None,
              resp_webhookId = JString (webhookId p), resp_transactionId = None,
              resp_sourceId = Some (src_id src)\<rparr>, d1)"
    using f2 u2 us c2 includes_duplicate by (simp add: POST_store_def alone_def)
  then show ?thesis
    using r1 tf ti by simp
qed

text \<open>
  Whatever the request, the store and the interleaving: a \<open>duplicate\<close> response of the
  route handler never carries a transaction id.
\<close>

lemma POST_store_duplicate_no_id:
  "resp_status (fst (POST_store rt il p d)) = Duplicate \<Longrightarrow>
   resp_transactionId (fst (POST_store rt il p d)) = None"
  by (auto simp: POST_store_def Let_def error_response_def
        split: prod.splits option.splits if_splits)

lemma POST_duplicate_no_id:
  "resp_status (fst (POST rt il req d)) = Duplicate \<Longrightarrow>
   resp_transactionId (fst (POST rt il req d)) = None"
  using POST_store_duplicate_no_id
  by (auto simp: POST_def Let_def error_response_def split: option.splits sum.splits if_splits)

text \<open>
  When the duplicate check finds no row and the insert fails, whatever the failure,
  \<^verbatim>\<open>createV2Transaction\<close> returns it as \<^verbatim>\<open>Failed to insert transaction: ...\<close>.
\<close>

lemma createV2Transaction_insert_error:
  assumes "select_transaction d (webhookId p) = Inl PGRST116"
      and "Date_parse rt (timestamp p) = Some t"
      and "insert_transaction (between d) (transactionData rt sid p t) = (Inl e, d')"
  shows "createV2Transaction rt between sid p d =
           ((None, Some (''Failed to insert transaction: '' @ err_message e)), d')"
  using assms by (simp add: createV2Transaction_def PGRST116_def)

text \<open>
  Claim C1. The same valid payload is delivered twice to the route handler, one delivery
  after the other, in a store where a user subscribes to its \<open>sourceTo\<close>. One row is
  kept and the second answer is 200 with status \<open>duplicate\<close>, as claimed (and as
  \<open>redelivery_is_duplicate\<close> shows for every payload and store), but it carries no
  \<open>transactionId\<close>, where the first carried the identifier 3. The handler written on
  the repositories answers the second delivery with that identifier.
\<close>

theorem duplicate_response_lacks_transactionId:
  "(let first = POST (server 0 0) alone (request_with payload_dup1) store_subscribed;
        second = POST (server 0 0) alone (request_with payload_dup1) (snd first);
        sibling = POST_repository (server 0 0) alone webhook_dup1 (snd first)
    in http_status (fst first) = 200 \<and> resp_status (fst first) = Processed \<and>
       resp_transactionId (fst first) = Some 3 \<and>
       http_status (fst second) = 200 \<and> resp_status (fst second) = Duplicate \<and>
       resp_transactionId (fst second) = None \<and>
       length (filter (\<lambda>r. webhook_id r = ''dup-1'') (v2_transactions (snd second))) = 1 \<and>
       resp_status (fst sibling) = Duplicate \<and> resp_transactionId (fst sibling) = Some 3)"
  by code_simp

text \<open>
  Claim C2. Two deliveries of the same payload race: the second is handled to its end
  between the first one's duplicate check and its insert, so the first one's insert
  violates the uniqueness constraint on \<open>webhook_id\<close>. \<^verbatim>\<open>createV2Transaction\<close> returns
  the violation as \<^verbatim>\<open>Failed to insert transaction: ...\<close>, and the route handler answers
  500 \<^verbatim>\<open>Failed to store transaction\<close>, not \<open>duplicate\<close>. The handler written on the
  repositories looks the row up after the failed insert and answers \<open>duplicate\<close>.
\<close>

theorem insert_conflict_reported_as_failure:
  "fst (createV2Transaction (server 0 0) (in_createV2Transaction racing_delivery) 1 webhook_dup1
          store_subscribed) =
     (None, Some (''Failed to insert transaction: '' @
                    err_message (unique_violation ''v2_transactions_webhook_id_key''))) \<and>
   fst (POST (server 0 0) racing_delivery (request_with payload_dup1) store_subscribed) =
     error_response 500 ''Failed to store transaction'' (JString ''dup-1'') \<and>
   fst (POST_repository (server 0 0) racing_delivery webhook_dup1 store_subscribed) =
     \<lparr>http_status = 200, resp_status = Duplicate, resp_error = None,
      resp_webhookId = JString ''dup-1'', resp_transactionId = Some 3, resp_sourceId = Some 1\<rparr>"
  by code_simp

subsection \<open>Concurrent first sightings of a source\<close>

text \<open>
  The claim C3 as stated fails: when another request creates the source between the
  lookup and the insert, \<^verbatim>\<open>findOrCreateSource\<close> returns no source and the conflict as
  its error, although the row is in the store.
\<close>

theorem findOrCreateSource_conflict_counterexample:
  "findOrCreateSource racing_sighting Email ''jdcadavid96@gmail.com'' store_empty =
     ((None, Some (''Failed to create source: '' @
                     err_message (unique_violation ''sources_source_type_source_value_key''))),
      racing_sighting store_empty) \<and>
   sources (racing_sighting store_empty) =
     [\<lparr>s_id = 1, source_type = Email, source_value = ''jdcadavid96@gmail.com''\<rparr>]"
  by code_simp

text \<open>
  Claim C3, amended. In \<^verbatim>\<open>findOrCreateSource(type, value)\<close>, when the lookup finds no
  row and the insert then fails with a uniqueness-constraint conflict (a concurrent
  first sighting created the same pair in between), the operation does not look the
  source up again: it returns no source and the error
  \<^verbatim>\<open>Failed to create source: <the store's message>\<close>, and it leaves the store as the
  concurrent writer left it, so no second row is created.
\<close>

theorem findOrCreateSource_conflict:
  assumes "outage d = None"
      and "\<not> list_ex (\<lambda>r. source_type r = t \<and> source_value r = v) (sources d)"
      and "outage (between d) = None" and "length v \<le> 255"
      and "list_ex (\<lambda>r. source_type r = t \<and> source_value r = v) (sources (between d))"
  shows "findOrCreateSource between t v d =
           ((None, Some (''Failed to create source: '' @
                           err_message (unique_violation ''sources_source_type_source_value_key''))),
            between d)"
proof -
  have "filter (\<lambda>r. source_type r = t \<and> source_value r = v) (sources d) = []"
    using assms(2) by (simp add: list_ex_iff filter_empty_conv)
  then have sel: "select_source d t v = Inl PGRST116"
    using assms(1) by (simp add: select_source_def single_def)
  have ins: "insert_source (between d) t v =
      (Inl (unique_violation ''sources_source_type_source_value_key''), between d)"
    using assms(3,4,5) by (simp add: insert_source_def source_constraints_def)
  show ?thesis
    by (simp add: findOrCreateSource_def sel ins PGRST116_def)
qed

theorem findOrCreateSource_conflict_witness:
  "findOrCreateSource (\<lambda>d. snd (insert_source d Phone ''+573001234567'')) Phone ''+573001234567''
     store_subscribed =
     ((None, Some (''Failed to create source: '' @
                     err_message (unique_violation ''sources_source_type_source_value_key''))),
      snd (insert_source store_subscribed Phone ''+573001234567''))"
proof -
  have h1: "outage store_subscribed = None" by code_simp
  have h2: "\<not> list_ex (\<lambda>r. source_type r = Phone \<and> source_value r = ''+573001234567'')
                (sources store_subscribed)" by code_simp
  have h3: "outage (snd (insert_source store_subscribed Phone ''+573001234567'')) = None"
    by code_simp
  have h4: "length ''+573001234567'' \<le> 255" by simp
  have h5: "list_ex (\<lambda>r. source_type r = Phone \<and> source_value r = ''+573001234567'')
              (sources (snd (insert_source store_subscribed Phone ''+573001234567'')))"
    by code_simp
  show ?thesis
    using findOrCreateSource_conflict
      [of store_subscribed Phone "''+573001234567''"
          "\<lambda>d. snd (insert_source d Phone ''+573001234567'')", OF h1 h2 h3 h4 h5]
    by simp
qed


subsection \<open>A source without subscribers\<close>

lemma POST_valid:
  assumes "passes_transport_checks rt req" and "json_body req = Some body"
      and "parseV2WebhookPayload (zod_datetime rt) body = Inr p"
  shows "POST rt il req d = POST_store rt il p d"
  using assms
  by (auto simp: POST_def passes_transport_checks_def present_def split: option.splits)




lemma findOrCreateSource_new:
  assumes "outage d = None" and "length v \<le> 255"
      and "\<not> list_ex (\<lambda>r. source_type r = t \<and> source_value r = v) (sources d)"
  shows "findOrCreateSource (\<lambda>x. x) t v d =
           ((Some \<lparr>src_id = next_uuid d, sourceType = t, sourceValue = v\<rparr>, None),
            d\<lparr>sources := sources d @ [\<lparr>s_id = next_uuid d, source_type = t, source_value = v\<rparr>],
              next_uuid := next_uuid d + 1\<rparr>)"
proof -
  have "filter (\<lambda>r. source_type r = t \<and> source_value r = v) (sources d) = []"
    using assms(3) by (simp add: list_ex_iff filter_empty_conv)
  then have sel: "select_source d t v = Inl PGRST116"
    using assms(1) by (simp add: select_source_def single_def)
  show ?thesis
    using assms by (simp add: findOrCreateSource_def sel PGRST116_def insert_source_def source_constraints_def
        transformDatabaseSource_def Let_def)
qed


lemma getUsersForSource_none:
  assumes "outage d = None"
      and "\<not> list_ex (\<lambda>r. us_source_id r = sid \<and> is_active r) (user_sources d)"
  shows "getUsersForSource sid d = ([], None)"
proof -
  have "filter (\<lambda>r. us_source_id r = sid \<and> is_active r) (user_sources d) = []"
    using assms(2) by (simp add: list_ex_iff filter_empty_conv)
  then show ?thesis
    using assms(1) by (simp add: getUsersForSource_def select_active_users_def)
qed

lemma POST_store_zero_users:
  assumes "findOrCreateSource (\<lambda>x. x) (inferSourceType (sourceTo p)) (sourceTo p) d =
             ((Some src, None), d1)"
      and "getUsersForSource (src_id src) d1 = ([], None)"
  shows "POST_store rt alone p d =
           (\<lparr>http_status = 404, resp_status = Error,
              resp_error = Some ''No users configured for this source'',
              resp_webhookId = JString (webhookId p), resp_transactionId = None,
              resp_sourceId = Some (src_id src)\<rparr>, d1)"
  using assms by (simp add: POST_store_def alone_def error_response_def)

lemma processV2Webhook_zero_users:
  assumes "findOrCreateSource (\<lambda>x. x) (inferSourceType (sourceTo p)) (sourceTo p) d =
             ((Some src, None), d1)"
      and "getUsersForSource (src_id src) d1 = ([], None)"
  shows "processV2Webhook rt alone p d = (failure ''No users configured for this source'', d1)"
  using assms by (simp add: processV2Webhook_def alone_def)












lemma parse_sourceTo_length:
  assumes "parseV2WebhookPayload dt body = Inr p"
  shows "length (sourceTo p) \<le> 255"
  using assms
  apply (cases body)
  apply (auto simp: parseV2WebhookPayload_def v2WebhookRequestSchema_def Let_def
           split: prod.splits option.splits if_splits)
  apply (auto simp: sourceValueSchema_def zod_string_def zod_check_def
           split: jsval.splits if_splits)
  done



text \<open>
  Claim C10. The zero-subscriber error path is not atomic with respect to the sources: a
  valid structured webhook whose \<open>sourceTo\<close> has no row in \<open>sources\<close>, and to whose
  fresh identifier no active subscription refers, ends in the 404 response
  \<^verbatim>\<open>No users configured for this source\<close>; the source row that find-or-create inserted
  during the request stays in the store and its identifier is the \<open>sourceId\<close> of the
  error response. \<^verbatim>\<open>processV2Webhook\<close> leaves the same store.
\<close>

theorem zero_subscriber_source_persists:
  assumes "passes_transport_checks rt req" and "json_body req = Some body"
      and "parseV2WebhookPayload (zod_datetime rt) body = Inr p"
      and "outage d = None"
      and "\<not> list_ex (\<lambda>r. source_type r = inferSourceType (sourceTo p) \<and>
                           source_value r = sourceTo p) (sources d)"
      and "\<not> list_ex (\<lambda>r. us_source_id r = next_uuid d \<and> is_active r) (user_sources d)"
  shows "POST rt alone req d =
           (\<lparr>http_status = 404, resp_status = Error,
              resp_error = Some ''No users configured for this source'',
              resp_webhookId = JString (webhookId p), resp_transactionId = None,
              resp_sourceId = Some (next_uuid d)\<rparr>,
            d\<lparr>sources := sources d @
                  [\<lparr>s_id = next_uuid d, source_type = inferSourceType (sourceTo p),
                    source_value = sourceTo p\<rparr>],
              next_uuid := next_uuid d + 1\<rparr>) \<and>
         snd (processV2Webhook rt alone p d) = snd (POST rt alone req d)"
proof -
  let ?d1 = "d\<lparr>sources := sources d @
                  [\<lparr>s_id = next_uuid d, source_type = inferSourceType (sourceTo p),
                    source_value = sourceTo p\<rparr>],
              next_uuid := next_uuid d + 1\<rparr>"
  let ?src = "\<lparr>src_id = next_uuid d, sourceType = inferSourceType (sourceTo p),
               sourceValue = sourceTo p\<rparr>"
  have f: "findOrCreateSource (\<lambda>x. x) (inferSourceType (sourceTo p)) (sourceTo p) d =
             ((Some ?src, None), ?d1)"
    using findOrCreateSource_new [OF assms(4) parse_sourceTo_length [OF assms(3)] assms(5)] .
  have u: "getUsersForSource (src_id ?src) ?d1 = ([], None)"
    using getUsersForSource_none [of ?d1 "next_uuid d"] assms(4,6) by simp
  have eq: "POST rt alone req d = POST_store rt alone p d"
    using POST_valid [OF assms(1,2,3)] .
  show ?thesis
    using POST_store_zero_users [OF f u] processV2Webhook_zero_users [OF f u] eq by simp
qed

theorem zero_subscriber_source_persists_witness:
  "POST (server 0 0) alone (request_with payload_dup1) store_empty =
     (\<lparr>http_status = 404, resp_status = Error,
        resp_error = Some ''No users configured for this source'',
        resp_webhookId = JString ''dup-1'', resp_transactionId = None,
        resp_sourceId = Some 1\<rparr>,
      \<lparr>sources = [\<lparr>s_id = 1, source_type = Email, source_value = ''jdcadavid96@gmail.com''\<rparr>],
       user_sources = [], v2_transactions = [], next_uuid = 2, outage = None\<rparr>)"
proof -
  have h1: "passes_transport_checks (server 0 0) (request_with payload_dup1)" by code_simp
  have h2: "json_body (request_with payload_dup1) = Some payload_dup1" by code_simp
  have h3: "parseV2WebhookPayload (zod_datetime (server 0 0)) payload_dup1 = Inr webhook_dup1"
    by code_simp
  have h4: "outage store_empty = None" by code_simp
  have h5: "\<not> list_ex (\<lambda>r. source_type r = inferSourceType (sourceTo webhook_dup1) \<and>
                           source_value r = sourceTo webhook_dup1) (sources store_empty)"
    by code_simp
  have h6: "\<not> list_ex (\<lambda>r. us_source_id r = next_uuid store_empty \<and> is_active r)
                (user_sources store_empty)"
    by code_simp
  have e: "inferSourceType ''jdcadavid96@gmail.com'' = Email"
          "sourceTo webhook_dup1 = ''jdcadavid96@gmail.com''"
          "webhookId webhook_dup1 = ''dup-1''"
    by code_simp+
  show ?thesis
    using zero_subscriber_source_persists [OF h1 h2 h3 h4 h5 h6]
    by (simp add: e store_empty_def)
qed


subsection \<open>The stored date and time\<close>

lemma recombine_utc:
  "Date_of_utc (toISOString_date t) (toTimeString_time 0 t) = t - t mod 1000"
proof -
  define s where "s = t div 1000"
  define q where "q = s div 86400"
  define r where "r = s mod 86400"
  have a: "t div 86400000 = q"
    unfolding s_def q_def by (simp add: zdiv_zmult2_eq [symmetric])
  have b: "s = 86400 * q + r"
    unfolding q_def r_def by simp
  have c: "t - t mod 1000 = s * 1000"
    unfolding s_def by (simp add: minus_mod_eq_div_mult)
  have "t div 86400000 * 86400000 + (t div 1000 mod 86400) * 1000 = t - t mod 1000"
    unfolding a c s_def [symmetric] r_def [symmetric] by (simp add: b)
  then show ?thesis
    by (simp add: Date_of_utc_def toISOString_date_def toTimeString_time_def msPerDay_def)
qed

lemma insert_transaction_row:
  assumes "insert_transaction d r = (Inr row, d')"
  shows "v2_transactions d' = v2_transactions d @ [row] \<and>
         transaction_date row = transaction_date r \<and>
         transaction_time row = transaction_time r \<and> webhook_id row = webhook_id r"
  using assms
  by (auto simp: insert_transaction_def Let_def split: option.splits)

text \<open>
  The claim C6 as stated fails in two ways. On a server five hours west of UTC the
  timestamp \<^verbatim>\<open>2025-09-04T02:06:00Z\<close> (time value 1756951560000) is stored as the date
  20335 (2025-09-04, from the UTC rendering) and the time 75960 (21:06:00, from the local
  rendering, which belongs to 2025-09-03): read as UTC the pair is 1757019960000, and
  read as local time, as \<^verbatim>\<open>transformDatabaseV2Transaction\<close> does, it is 1757037960000,
  a day after the instant. On a server in UTC the timestamp
  \<^verbatim>\<open>2025-09-04T08:06:00.500Z\<close> (1756973160500) is stored without its half second.
\<close>

theorem stored_date_time_counterexample:
  "Date_parse (server (- 300) 0) (timestamp webhook_night) = Some 1756951560000 \<and>
   (case createV2Transaction (server (- 300) 0) (\<lambda>x. x) 1 webhook_night store_subscribed of
      ((Some tr, None), d') \<Rightarrow>
        map (\<lambda>r. (transaction_date r, transaction_time r)) (v2_transactions d') =
          [(20335, 75960)] \<and>
        tx_date tr = 1757037960000
    | _ \<Rightarrow> False) \<and>
   Date_of_utc 20335 75960 = 1757019960000 \<and>
   Date_of_local (- 300) 20335 75960 = 1757037960000 \<and>
   Date_parse (server 0 0) (timestamp webhook_fraction) = Some 1756973160500 \<and>
   (case createV2Transaction (server 0 0) (\<lambda>x. x) 1 webhook_fraction store_subscribed of
      ((Some tr, None), d') \<Rightarrow>
        map (\<lambda>r. (transaction_date r, transaction_time r)) (v2_transactions d') =
          [(20335, 29160)] \<and>
        tx_date tr = 1756973160000
    | _ \<Rightarrow> False)"
  by code_simp

text \<open>
  Claim C6, amended. When the server's local time zone is UTC, a structured transaction
  that \<^verbatim>\<open>createV2Transaction\<close> persists is stored with the UTC calendar date of the
  payload's timestamp as \<open>transactionDate\<close> and its UTC time of day in whole seconds as
  \<open>transactionTime\<close>; the pair recombines to the instant of the timestamp rounded down
  to the whole second (the instant itself when the timestamp has no fraction of a
  second), and this is the \<open>date\<close> of the transaction returned.
\<close>

theorem stored_date_time_utc:
  assumes "tzOffsetMinutes rt = 0"
      and "createV2Transaction rt between sid p d = ((Some tr, None), d')"
  shows "\<exists>t row. Date_parse rt (timestamp p) = Some t \<and>
           v2_transactions d' = v2_transactions (between d) @ [row] \<and>
           webhook_id row = webhookId p \<and>
           transaction_date row = t div msPerDay \<and>
           transaction_time row = (t div 1000) mod 86400 \<and>
           Date_of_utc (transaction_date row) (transaction_time row) = t - t mod 1000 \<and>
           tx_date tr = t - t mod 1000"
proof -
  from assms(2) obtain t where t: "Date_parse rt (timestamp p) = Some t"
    by (auto simp: createV2Transaction_def split: sum.splits if_splits option.splits)
  from assms(2) t obtain row where
    ins: "insert_transaction (between d) (transactionData rt sid p t) = (Inr row, d')"
    and tr: "tr = transformDatabaseV2Transaction rt row"
    by (auto simp: createV2Transaction_def split: sum.splits if_splits prod.splits)
  note r = insert_transaction_row [OF ins]
  have dt: "transaction_date row = toISOString_date t"
           "transaction_time row = toTimeString_time 0 t"
    using r assms(1) by (simp_all add: transactionData_def)
  have "Date_of_utc (transaction_date row) (transaction_time row) = t - t mod 1000"
    using recombine_utc [of t] dt by simp
  moreover have "tx_date tr = Date_of_utc (transaction_date row) (transaction_time row)"
    using tr assms(1)
    by (simp add: transformDatabaseV2Transaction_def Date_of_local_def Date_of_utc_def)
  moreover have "webhook_id row = webhookId p"
    using r by (simp add: transactionData_def)
  ultimately show ?thesis
    using t r dt by (auto simp: toISOString_date_def toTimeString_time_def)
qed

theorem stored_date_time_utc_witness:
  "\<exists>t row. Date_parse (server 0 0) (timestamp webhook_fraction) = Some t \<and>
     v2_transactions
       (snd (createV2Transaction (server 0 0) (\<lambda>x. x) 1 webhook_fraction store_subscribed)) =
       v2_transactions store_subscribed @ [row] \<and>
     webhook_id row = webhookId webhook_fraction \<and>
     transaction_date row = t div msPerDay \<and>
     transaction_time row = (t div 1000) mod 86400 \<and>
     Date_of_utc (transaction_date row) (transaction_time row) = t - t mod 1000 \<and>
     1756973160000 = t - t mod 1000"
proof -
  let ?tr = "\<lparr>tx_id = 3, tx_sourceId = 1, tx_amount = 75000, tx_currency = ''COP'',
              tx_senderName = [], tx_accountNumber = [], tx_date = 1756973160000,
              tx_time = 29160, tx_rawMessage = ''Recibiste una transferencia'',
              tx_webhookId = ''fraction-1'', tx_event = ''deposit'',
              tx_status = ''processed''\<rparr>"
  let ?d' = "snd (createV2Transaction (server 0 0) (\<lambda>x. x) 1 webhook_fraction store_subscribed)"
  have h1: "tzOffsetMinutes (server 0 0) = 0" by code_simp
  have "fst (createV2Transaction (server 0 0) (\<lambda>x. x) 1 webhook_fraction store_subscribed) =
          (Some ?tr, None)"
    by code_simp
  then have h2: "createV2Transaction (server 0 0) (\<lambda>x. x) 1 webhook_fraction store_subscribed =
                   ((Some ?tr, None), ?d')"
    by (simp add: prod_eq_iff)
  show ?thesis
    using stored_date_time_utc [OF h1 h2] by simp
qed


subsection \<open>The message grammar parser\<close>

lemma template_round_trip:
  "parseBancolombiaSMS
     ''Bancolombia: Recibiste una transferencia por $190,000 de MARIA CUBAQUE en tu cuenta **7251, el 04/09/2025 a las 08:06'' =
   \<lparr>pm_amount = 190000, pm_senderName = ''MARIA CUBAQUE'', pm_account = ''7251'',
     pm_date = days_from_civil 2025 9 4, pm_time = ''08:06'', pm_success = True,
     pm_errorReason = None\<rparr>"
  by code_simp

lemma other_template_rejected:
  "parseBancolombiaSMS ''Nequi: Recibiste $100,000 de PEDRO LOPEZ'' =
   parse_failure ''Message does not match the Bancolombia transfer format''"
  by code_simp

text \<open>
  Claim C7. A message that matches the bank-transfer template and whose
  \<^verbatim>\<open>DD/MM/YYYY\<close> group is not a date of the calendar (a month outside 1 to 12, or a day
  the month does not have) is answered by the grammar parser with a failure that carries
  a non-empty \<open>errorReason\<close>, never with a success.
\<close>

theorem impossible_date_rejected:
  assumes "match_template msg = Some (amt, sender, acct, dt, tm)"
      and "\<not> is_calendar_date (digits_val (take 2 dt)) (digits_val (take 2 (drop 3 dt)))
                (digits_val (drop 6 dt))"
  shows "\<not> pm_success (parseBancolombiaSMS msg) \<and>
         (\<exists>reason. pm_errorReason (parseBancolombiaSMS msg) = Some reason \<and> reason \<noteq> [])"
  using assms by (simp add: parseBancolombiaSMS_def parse_failure_def Let_def)

theorem impossible_date_rejected_witness:
  "\<not> pm_success (parseBancolombiaSMS
      ''Bancolombia: Recibiste una transferencia por $50,000 de JUAN PEREZ en tu cuenta **1234, el 32/13/2025 a las 08:06'') \<and>
   (\<exists>reason. pm_errorReason (parseBancolombiaSMS
      ''Bancolombia: Recibiste una transferencia por $50,000 de JUAN PEREZ en tu cuenta **1234, el 32/13/2025 a las 08:06'') =
        Some reason \<and> reason \<noteq> [])"
proof -
  have m: "match_template
      ''Bancolombia: Recibiste una transferencia por $50,000 de JUAN PEREZ en tu cuenta **1234, el 32/13/2025 a las 08:06'' =
      Some (''50,000'', ''JUAN PEREZ'', ''1234'', ''32/13/2025'', ''08:06'')"
    by code_simp
  have d: "\<not> is_calendar_date (digits_val (take 2 ''32/13/2025''))
              (digits_val (take 2 (drop 3 ''32/13/2025''))) (digits_val (drop 6 ''32/13/2025''))"
    by code_simp
  show ?thesis
    using impossible_date_rejected [OF m d] .
qed


end
